theory Spec2Isabelle
  imports Complex_Main "HOL-Library.Sublist" "HOL-Library.Multiset"
begin

section \<open>Data model\<close>

text \<open>
  The repository is one class, \<open>ProductRepo\<close> (\<open>src/product/product.repository.ts\<close>),
  whose methods send SQL statements to a PostgreSQL database. The model keeps the two
  tables the statements read and write as lists of rows and gives each statement the
  meaning SQL gives it. The order of a list means nothing: SQL leaves open in which
  order a statement yields its rows and where a written row is put, so every statement
  takes these choices of the database as parameters (the record \<open>engine\<close> below), and
  the theorems hold for every choice.

  Numbers: \<open>page\<close> and \<open>pageSize\<close> are JavaScript numbers, IEEE doubles. The model has
  the integer-valued ones, as \<open>int\<close>, and rounds the result of every operation on them
  to the nearest double (\<open>fl\<close>); fractional, \<open>NaN\<close> and infinite arguments are outside
  the model. The integer columns are \<open>int\<close>, the two prices \<open>rat\<close>. Strings are
  \<open>string\<close>; characters above \<open>0xFF\<close> are outside the model.
\<close>

datatype teg = New | Hit | Sale

fun teg_text :: "teg \<Rightarrow> string" where
  "teg_text New = ''new''"
| "teg_text Hit = ''hit''"
| "teg_text Sale = ''sale''"

text \<open>
  What is bound to the columns \<open>tegs\<close> and \<open>image\<close>: SQL \<open>NULL\<close> or the text of an array
  literal.
\<close>

datatype colval = PgNull | PgText string

text \<open>
  A row of the table \<open>product\<close>: the ten columns of \<open>createProductQuery\<close> and
  \<open>updated_at\<close>, the sort key of the listings (the column \<open>image\<close> is the field
  \<open>image_col\<close>). The table declaration is not part of the sources; columns that no
  statement of the class names are left out.
\<close>

record product =
  barcode :: string
  name :: string
  branch_id :: int
  price :: rat
  stock :: int
  real_price :: rat
  category_id :: int
  description :: "string option"
  tegs :: colval
  image_col :: colval
  updated_at :: int

text \<open>A row of the table \<open>branch\<close>: the columns \<open>id\<close> and \<open>name\<close> that the joins read.\<close>

record branch =
  bid :: int
  bname :: string

record database =
  products :: "product list"
  branches :: "branch list"

text \<open>
  A result row: \<open>SELECT * FROM product\<close> gives the product's columns, and
  \<open>SELECT product.*, branch.name AS branch_name\<close> gives them with the extra key
  \<open>branch_name\<close>.
\<close>

datatype row = Plain product | Joined product string

fun row_product :: "row \<Rightarrow> product" where
  "row_product (Plain p) = p"
| "row_product (Joined p n) = p"

text \<open>
  The errors a method can end with: the two \<open>Error\<close>s that \<open>updateProduct\<close> throws, and
  the errors of the database that depend on the arguments and the tables: a text
  parameter with a NUL character, a value that the type of its column does not take,
  a \<open>LIMIT\<close> or \<open>OFFSET\<close> value that is no bigint, a negative \<open>LIMIT\<close> or \<open>OFFSET\<close>,
  a constraint of the schema.
\<close>

datatype error =
    NoFieldsSupplied
  | ProductNotFound string
  | InvalidByteSequence
  | InvalidParameter
  | BigintOutOfRange
  | InvalidLimitOffset
  | ConstraintViolation

text \<open>
  A value that a writing statement binds to a column of \<open>product\<close>: the keys of
  \<open>updateData\<close> in \<open>updateProduct\<close>, and the parameters of \<open>createProductQuery\<close> that
  are not \<open>null\<close>.
\<close>

datatype assignment =
    SetBarcode string
  | SetName string
  | SetBranchId int
  | SetPrice rat
  | SetStock int
  | SetRealPrice rat
  | SetTegs "teg list"
  | SetCategoryId int
  | SetDescription string
  | SetImage string

text \<open>
  The choices of the database. \<open>fts\<close> is its full-text match
  \<open>to_tsvector('simple', product.name) @@ plainto_tsquery(?)\<close>, a function of the
  column and the bound text. \<open>plan\<close> is the order in which a statement yields its rows
  (before any \<open>ORDER BY\<close>), \<open>place\<close> the order in which a table holds its rows after a
  statement has written to it. The schema is not part of the sources: \<open>admits\<close> says
  whether the type of a column takes a value that is bound to it (a number within the
  range of the column, an array literal that is well formed), which the database
  checks when it binds the parameters, before it looks at any row; \<open>accepts\<close> says
  whether the constraints of the schema hold of the tables that a writing statement
  would leave. A database is \<open>fair\<close> when \<open>plan\<close> and \<open>place\<close> only reorder.
\<close>

record engine =
  fts :: "string \<Rightarrow> string \<Rightarrow> bool"
  plan :: "row list \<Rightarrow> row list"
  place :: "product list \<Rightarrow> product list"
  admits :: "assignment \<Rightarrow> bool"
  accepts :: "database \<Rightarrow> bool"

definition fair :: "engine \<Rightarrow> bool" where
  "fair e = ((\<forall>rs. mset (plan e rs) = mset rs) \<and> (\<forall>ps. mset (place e ps) = mset ps))"

section \<open>JavaScript numbers and strings\<close>

text \<open>
  The double nearest to an integer: every integer up to \<open>2^53 = 9007199254740992\<close> in
  absolute value is a double; a larger one is rounded to 53 significant bits, a tie
  to the even one. (A product beyond the largest double is \<open>Infinity\<close> in JavaScript;
  here it stays a number beyond every bigint, and the database refuses both.)
\<close>

function bit_length :: "int \<Rightarrow> nat" where
  "bit_length n = (if n \<le> 0 then 0 else Suc (bit_length (n div 2)))"
  by pat_completeness auto
termination
  by (relation "measure nat") auto

declare bit_length.simps [simp del]

definition fl :: "int \<Rightarrow> int" where
  "fl n =
     (if \<bar>n\<bar> \<le> 9007199254740992 then n
      else
        (let u = 2 ^ (bit_length \<bar>n\<bar> - 53);
             q = \<bar>n\<bar> div u;
             r = \<bar>n\<bar> mod u;
             q' = (if u < 2 * r \<or> (u = 2 * r \<and> odd q) then q + 1 else q)
         in sgn n * q' * u))"

text \<open>
  \<open>Math.ceil(totalRecords / pageSize)\<close> is a division of doubles: by zero it gives
  \<open>NaN\<close> or an infinity, and a comparison with \<open>NaN\<close> is false. For a divisor of at
  least one and up to \<open>2^53\<close> records the ceiling of the rounded quotient is the
  ceiling of the quotient, which is what the model computes; the theorems about
  \<open>total_pages\<close> assume that many records at most.
\<close>

datatype jsnum = Finite int | PosInfinity | NegInfinity | NotANumber

definition math_ceil_div :: "int \<Rightarrow> int \<Rightarrow> jsnum" where
  "math_ceil_div a b =
     (if b = 0 then (if a = 0 then NotANumber else if 0 < a then PosInfinity else NegInfinity)
      else Finite \<lceil>real_of_int a / real_of_int b\<rceil>)"

fun js_less :: "int \<Rightarrow> jsnum \<Rightarrow> bool" where
  "js_less n (Finite m) = (n < m)"
| "js_less n PosInfinity = True"
| "js_less n NegInfinity = False"
| "js_less n NotANumber = False"

text \<open>The characters below \<open>0x100\<close> that \<open>String.prototype.trim\<close> removes.\<close>

definition js_whitespace :: "char \<Rightarrow> bool" where
  "js_whitespace c =
     (c = CHR 0x09 \<or> c = CHR 0x0A \<or> c = CHR 0x0B \<or> c = CHR 0x0C \<or> c = CHR 0x0D
      \<or> c = CHR 0x20 \<or> c = CHR 0xA0)"

definition trim :: "string \<Rightarrow> string" where
  "trim s = rev (dropWhile js_whitespace (rev (dropWhile js_whitespace s)))"

text \<open>\<open>`{${xs.map((x) => `"${x}"`).join(',')}}`\<close>\<close>

fun join :: "string \<Rightarrow> string list \<Rightarrow> string" where
  "join sep [] = []"
| "join sep [x] = x"
| "join sep (x # y # ys) = x @ sep @ join sep (y # ys)"

definition array_literal :: "string list \<Rightarrow> string" where
  "array_literal xs = ''{'' @ join '','' (map (\<lambda>x. [CHR 0x22] @ x @ [CHR 0x22]) xs) @ ''}''"

section \<open>The SQL of the statements\<close>

text \<open>
  A text parameter: PostgreSQL refuses a string with a NUL character (error 22021),
  whatever the statement and whether or not a row would match.
\<close>

definition text_ok :: "string \<Rightarrow> bool" where
  "text_ok s = (CHR 0x00 \<notin> set s)"

text \<open>
  The values of a writing statement are bound in the order of its parameters; the
  first one that is refused, as a text or by the type of its column, ends the
  statement. The elements of \<open>tegs\<close> are three fixed words.
\<close>

fun assignment_text_ok :: "assignment \<Rightarrow> bool" where
  "assignment_text_ok (SetBarcode v) = text_ok v"
| "assignment_text_ok (SetName v) = text_ok v"
| "assignment_text_ok (SetDescription v) = text_ok v"
| "assignment_text_ok (SetImage v) = text_ok v"
| "assignment_text_ok a = True"

fun bind_error :: "engine \<Rightarrow> assignment list \<Rightarrow> error option" where
  "bind_error e [] = None"
| "bind_error e (a # as) =
     (if \<not> assignment_text_ok a then Some InvalidByteSequence
      else if \<not> admits e a then Some InvalidParameter
      else bind_error e as)"

text \<open>
  \<open>LIKE\<close> patterns: \<open>%\<close> matches any run of characters, \<open>_\<close> any one character, and a
  backslash makes the character after it literal. (PostgreSQL rejects a pattern that
  ends in a lone backslash; the patterns of this class end in \<open>%\<close>.)
\<close>

fun like_match :: "string \<Rightarrow> string \<Rightarrow> bool" where
  "like_match [] s = (s = [])"
| "like_match (c # p) s =
     (if c = CHR ''%'' then
        (like_match p s \<or> (case s of [] \<Rightarrow> False | d # s' \<Rightarrow> like_match (c # p) s'))
      else if c = CHR ''_'' then
        (case s of [] \<Rightarrow> False | d # s' \<Rightarrow> like_match p s')
      else if c = CHR 0x5C then
        (case p of [] \<Rightarrow> False
         | e # p' \<Rightarrow> (case s of [] \<Rightarrow> False | d # s' \<Rightarrow> d = e \<and> like_match p' s'))
      else
        (case s of [] \<Rightarrow> False | d # s' \<Rightarrow> d = c \<and> like_match p s'))"

text \<open>
  \<open>ILIKE\<close> compares without regard to the case of the letters \<open>A\<close> to \<open>Z\<close>. (How it
  folds other letters depends on the locale of the database; they are compared as
  they are here, and the examples have none.)
\<close>

definition lower_char :: "char \<Rightarrow> char" where
  "lower_char c =
     (case map_of (zip ''ABCDEFGHIJKLMNOPQRSTUVWXYZ'' ''abcdefghijklmnopqrstuvwxyz'') c of
        None \<Rightarrow> c
      | Some l \<Rightarrow> l)"

definition ilike :: "string \<Rightarrow> string \<Rightarrow> bool" where
  "ilike s pat = like_match (map lower_char pat) (map lower_char s)"

text \<open>
  \<open>FROM product JOIN branch ON branch.id = product.branch_id\<close>: one row for every pair
  of a product and a branch with that id.
\<close>

definition product_join_branch :: "database \<Rightarrow> (product \<times> branch) list" where
  "product_join_branch db =
     concat (map (\<lambda>p. map (\<lambda>b. (p, b)) (filter (\<lambda>b. bid b = branch_id p) (branches db)))
                 (products db))"

text \<open>
  \<open>ORDER BY updated_at DESC\<close>, applied to rows in the order of the plan: rows with
  equal keys stay in that order, which is the database's choice.
\<close>

definition order_by_updated_at_desc :: "row list \<Rightarrow> row list" where
  "order_by_updated_at_desc rs = sort_key (\<lambda>r. - updated_at (row_product r)) rs"

text \<open>
  \<open>LIMIT ? OFFSET ?\<close>. The two parameters are bigints: the driver sends a number as
  its decimal text, and PostgreSQL refuses a value outside \<open>-2^63 .. 2^63 - 1\<close>; it
  raises an error when either number is negative. (From \<open>10^21\<close> on the text has an
  exponent, which is no bigint either. Above \<open>2^53\<close> the decimal text of a double can
  denote a neighbouring integer; this matters to tables of more than \<open>2^53\<close> rows
  only.)
\<close>

definition bigint :: "int \<Rightarrow> bool" where
  "bigint n = (- 9223372036854775808 \<le> n \<and> n \<le> 9223372036854775807)"

definition limit_offset :: "int \<Rightarrow> int \<Rightarrow> 'a list \<Rightarrow> error + 'a list" where
  "limit_offset n m rs =
     (if \<not> bigint n \<or> \<not> bigint m then Inl BigintOutOfRange
      else if n < 0 \<or> m < 0 then Inl InvalidLimitOffset
      else Inr (take (nat n) (drop (nat m) rs)))"

text \<open>
  The \<open>WHERE\<close> clause of the three search statements, written out once for each
  statement as in the source; the first argument is the full-text match.
\<close>

definition count_search_where ::
  "(string \<Rightarrow> string \<Rightarrow> bool) \<Rightarrow> string \<Rightarrow> string \<Rightarrow> string \<Rightarrow> product \<times> branch \<Rightarrow> bool" where
  "count_search_where ft b1 b2 b3 pb =
     (ft (name (fst pb)) b1 \<or> ilike (name (fst pb)) b2 \<or> ilike (barcode (fst pb)) b3)"

definition data_search_where ::
  "(string \<Rightarrow> string \<Rightarrow> bool) \<Rightarrow> string \<Rightarrow> string \<Rightarrow> string \<Rightarrow> product \<times> branch \<Rightarrow> bool" where
  "data_search_where ft b1 b2 b3 pb =
     (ft (name (fst pb)) b1 \<or> ilike (name (fst pb)) b2 \<or> ilike (barcode (fst pb)) b3)"


definition select_branch_name :: "product \<times> branch \<Rightarrow> row" where
  "select_branch_name pb = Joined (fst pb) (bname (snd pb))"

text \<open>The two statements of the search branch of \<open>getProducts\<close> (lines 68-96).\<close>

definition count_search ::
  "engine \<Rightarrow> database \<Rightarrow> string \<Rightarrow> string \<Rightarrow> string \<Rightarrow> error + int" where
  "count_search e db b1 b2 b3 =
     (if \<not> (text_ok b1 \<and> text_ok b2 \<and> text_ok b3) then Inl InvalidByteSequence
      else Inr (int (length (filter (count_search_where (fts e) b1 b2 b3)
                                    (product_join_branch db)))))"

definition select_search_page ::
  "engine \<Rightarrow> database \<Rightarrow> string \<Rightarrow> string \<Rightarrow> string \<Rightarrow> int \<Rightarrow> int \<Rightarrow> error + row list" where
  "select_search_page e db b1 b2 b3 b4 b5 =
     (if \<not> (text_ok b1 \<and> text_ok b2 \<and> text_ok b3) then Inl InvalidByteSequence
      else limit_offset b4 b5
             (order_by_updated_at_desc
                (plan e (map select_branch_name
                           (filter (data_search_where (fts e) b1 b2 b3)
                                   (product_join_branch db))))))"

text \<open>The two statements of the other branch (lines 98-109).\<close>

definition count_products :: "database \<Rightarrow> error + int" where
  "count_products db = Inr (int (length (products db)))"

definition select_joined_page :: "engine \<Rightarrow> database \<Rightarrow> int \<Rightarrow> int \<Rightarrow> error + row list" where
  "select_joined_page e db b1 b2 =
     limit_offset b1 b2
       (order_by_updated_at_desc (plan e (map select_branch_name (product_join_branch db))))"

text \<open>\<open>selectAllProductQuery\<close> (lines 12-16).\<close>

definition selectAllProductQuery :: "engine \<Rightarrow> database \<Rightarrow> int \<Rightarrow> int \<Rightarrow> error + row list" where
  "selectAllProductQuery e db b1 b2 =
     limit_offset b1 b2 (order_by_updated_at_desc (plan e (map Plain (products db))))"

section \<open>The listings\<close>

record pagination =
  total_records :: int
  current_page :: int
  total_pages :: jsnum
  next_page :: "int option"
  prev_page :: "int option"

record page_result =
  data :: "row list"
  pagination :: pagination

text \<open>
  \<open>getProducts\<close> (lines 60-128). \<open>q\<close> is \<open>None\<close> when the argument is absent. The
  method awaits two statements, with no transaction around them: \<open>dbc\<close> is the
  database as the counting statement finds it, \<open>dbd\<close> as the data statement finds it.
  An error of a statement leaves the method at that statement. \<open>parseInt\<close> of the count
  and the three operations on \<open>page\<close> round to a double.
\<close>

definition getProducts ::
  "engine \<Rightarrow> database \<Rightarrow> database \<Rightarrow> int \<Rightarrow> int \<Rightarrow> string option \<Rightarrow> error + page_result" where
  "getProducts e dbc dbd page pageSize q =
     (let offset = fl (fl (page - 1) * pageSize);
          (totalCountResult, dataResult) =
            (case q of
               None \<Rightarrow> (count_products dbc, select_joined_page e dbd pageSize offset)
             | Some s \<Rightarrow>
                 if s \<noteq> [] \<and> trim s \<noteq> [] then
                   (let fullText = s; ilikeText = ''%'' @ s @ ''%'' in
                      (count_search e dbc fullText ilikeText ilikeText,
                       select_search_page e dbd fullText ilikeText ilikeText pageSize offset))
                 else (count_products dbc, select_joined_page e dbd pageSize offset))
      in case totalCountResult of
           Inl err \<Rightarrow> Inl err
         | Inr cnt \<Rightarrow>
             (case dataResult of
                Inl err \<Rightarrow> Inl err
              | Inr rows \<Rightarrow>
                  (let totalRecords = fl cnt;
                       totalPages = math_ceil_div totalRecords pageSize;
                       nextPage = (if js_less page totalPages then Some (fl (page + 1)) else None);
                       prevPage = (if page > 1 then Some (fl (page - 1)) else None)
                   in Inr \<lparr>data = rows,
                           pagination = \<lparr>total_records = totalRecords, current_page = page,
                                         total_pages = totalPages, next_page = nextPage,
                                         prev_page = prevPage\<rparr>\<rparr>)))"

text \<open>\<open>selectAllProduct\<close> (lines 131-153), with its two statements likewise.\<close>

definition selectAllProduct ::
  "engine \<Rightarrow> database \<Rightarrow> database \<Rightarrow> int \<Rightarrow> int \<Rightarrow> error + page_result" where
  "selectAllProduct e dbc dbd page pageSize =
     (let offset = fl (fl (page - 1) * pageSize) in
        case count_products dbc of
          Inl err \<Rightarrow> Inl err
        | Inr cnt \<Rightarrow>
            (let totalRecords = fl cnt in
               case selectAllProductQuery e dbd pageSize offset of
                 Inl err \<Rightarrow> Inl err
               | Inr rows \<Rightarrow>
                   (let totalPages = math_ceil_div totalRecords pageSize;
                        nextPage = (if js_less page totalPages then Some (fl (page + 1)) else None);
                        prevPage = (if page > 1 then Some (fl (page - 1)) else None)
                    in Inr \<lparr>data = rows,
                            pagination = \<lparr>total_records = totalRecords, current_page = page,
                                          total_pages = totalPages, next_page = nextPage,
                                          prev_page = prevPage\<rparr>\<rparr>)))"

section \<open>Reading one product, searching\<close>

text \<open>\<open>res.rows[0]\<close>: \<open>undefined\<close> (here \<open>None\<close>) when the statement returned no row.\<close>

fun first_row :: "'a list \<Rightarrow> 'a option" where
  "first_row [] = None"
| "first_row (r # rs) = Some r"

text \<open>\<open>selectByIDProduct\<close> (lines 18-21 and 156-159).\<close>

definition selectByIDProduct :: "engine \<Rightarrow> database \<Rightarrow> string \<Rightarrow> error + row option" where
  "selectByIDProduct e db bc =
     (if \<not> text_ok bc then Inl InvalidByteSequence
      else Inr (first_row (plan e (map Plain (filter (\<lambda>p. barcode p = bc) (products db))))))"



section \<open>Writing\<close>

text \<open>
  A statement that changes no row leaves the tables as they are. The value a new row
  gets in \<open>updated_at\<close>, which no statement of the class sets, is a parameter of
  \<open>createProduct\<close>.
\<close>

record create_data =
  c_barcode :: string
  c_name :: string
  c_branch_id :: int
  c_price :: rat
  c_stock :: int
  c_category_id :: int
  c_description :: "string option"
  c_real_price :: rat
  c_tegs :: "teg list"
  c_imageUrls :: "string list option"

text \<open>
  The parameters of \<open>createProductQuery\<close> that are not \<open>null\<close>, in the order of lines
  195-204; a \<open>null\<close> is taken by every type.
\<close>

definition create_bindings :: "create_data \<Rightarrow> assignment list" where
  "create_bindings d =
     [SetBarcode (c_barcode d), SetName (c_name d), SetBranchId (c_branch_id d),
      SetPrice (c_price d), SetStock (c_stock d), SetRealPrice (c_real_price d),
      SetCategoryId (c_category_id d)]
     @ (case c_description d of None \<Rightarrow> []
        | Some s \<Rightarrow> if s \<noteq> [] then [SetDescription s] else [])
     @ (if length (c_tegs d) \<noteq> 0 then [SetTegs (c_tegs d)] else [])
     @ (case c_imageUrls d of None \<Rightarrow> []
        | Some urls \<Rightarrow> if length urls \<noteq> 0 then [SetImage (array_literal urls)] else [])"

text \<open>
  \<open>createProduct\<close> (lines 34-49 and 174-207). \<open>data.description || null\<close> is \<open>null\<close>
  for an absent and for an empty description.
\<close>

definition createProduct ::
  "engine \<Rightarrow> int \<Rightarrow> database \<Rightarrow> create_data \<Rightarrow> (error + row) \<times> database" where
  "createProduct e default_updated_at db d =
     (let imageArrayPg =
            (case c_imageUrls d of
               None \<Rightarrow> PgNull
             | Some urls \<Rightarrow> if length urls \<noteq> 0 then PgText (array_literal urls) else PgNull);
          tegsArrayPg =
            (if length (c_tegs d) \<noteq> 0 then PgText (array_literal (map teg_text (c_tegs d)))
             else PgNull);
          inserted =
            \<lparr>barcode = c_barcode d, name = c_name d, branch_id = c_branch_id d,
             price = c_price d, stock = c_stock d, real_price = c_real_price d,
             category_id = c_category_id d,
             description =
               (case c_description d of None \<Rightarrow> None
                | Some s \<Rightarrow> if s \<noteq> [] then Some s else None),
             tegs = tegsArrayPg, image_col = imageArrayPg,
             updated_at = default_updated_at\<rparr>;
          db' = db\<lparr>products := place e (products db @ [inserted])\<rparr>
      in case bind_error e (create_bindings d) of
           Some err \<Rightarrow> (Inl err, db)
         | None \<Rightarrow>
             if accepts e db' then (Inr (Plain inserted), db')
             else (Inl ConstraintViolation, db))"

record update_data =
  u_barcode :: "string option"
  u_name :: "string option"
  u_branch_id :: "int option"
  u_price :: "rat option"
  u_stock :: "int option"
  u_real_price :: "rat option"
  u_category_id :: "int option"
  u_description :: "string option"
  u_tegs :: "teg list option"
  u_imageUrls :: "string list option"

text \<open>
  \<open>updateData\<close>: the keys that \<open>updateProduct\<close> sets, with their values, in the order
  of lines 227-240.
\<close>

fun key_if_defined :: "('a \<Rightarrow> assignment) \<Rightarrow> 'a option \<Rightarrow> assignment list" where
  "key_if_defined k None = []"
| "key_if_defined k (Some v) = [k v]"

definition updateData :: "update_data \<Rightarrow> assignment list" where
  "updateData d =
     key_if_defined SetBarcode (u_barcode d)
     @ key_if_defined SetName (u_name d)
     @ key_if_defined SetBranchId (u_branch_id d)
     @ key_if_defined SetPrice (u_price d)
     @ key_if_defined SetStock (u_stock d)
     @ key_if_defined SetRealPrice (u_real_price d)
     @ key_if_defined SetTegs (u_tegs d)
     @ key_if_defined SetCategoryId (u_category_id d)
     @ key_if_defined SetDescription (u_description d)
     @ key_if_defined SetImage (map_option array_literal (u_imageUrls d))"

text \<open>
  \<open>UPDATE product SET ...\<close>: one column of a row. The query builder is given the
  array of \<open>tegs\<close> itself, and the driver writes an array as the literal of its
  double-quoted elements, the text that \<open>createProduct\<close> writes by hand.
\<close>

fun assign :: "assignment \<Rightarrow> product \<Rightarrow> product" where
  "assign (SetBarcode v) p = p\<lparr>barcode := v\<rparr>"
| "assign (SetName v) p = p\<lparr>name := v\<rparr>"
| "assign (SetBranchId v) p = p\<lparr>branch_id := v\<rparr>"
| "assign (SetPrice v) p = p\<lparr>price := v\<rparr>"
| "assign (SetStock v) p = p\<lparr>stock := v\<rparr>"
| "assign (SetRealPrice v) p = p\<lparr>real_price := v\<rparr>"
| "assign (SetTegs v) p = p\<lparr>tegs := PgText (array_literal (map teg_text v))\<rparr>"
| "assign (SetCategoryId v) p = p\<lparr>category_id := v\<rparr>"
| "assign (SetDescription v) p = p\<lparr>description := Some v\<rparr>"
| "assign (SetImage v) p = p\<lparr>image_col := PgText v\<rparr>"

text \<open>
  \<open>updateProduct\<close> (lines 210-256): \<open>UPDATE product SET ... WHERE barcode = ?
  RETURNING *\<close> binds the values of \<open>updateData\<close> and then the barcode, changes every
  row with that barcode and returns the changed rows; \<open>[updated]\<close> is the first of
  them.
\<close>

definition updateProduct ::
  "engine \<Rightarrow> database \<Rightarrow> string \<Rightarrow> update_data \<Rightarrow> (error + row) \<times> database" where
  "updateProduct e db bc d =
     (if length (updateData d) = 0 then (Inl NoFieldsSupplied, db)
      else
        (case bind_error e (updateData d) of
           Some err \<Rightarrow> (Inl err, db)
         | None \<Rightarrow>
             if \<not> text_ok bc then (Inl InvalidByteSequence, db)
             else
               (let returned =
                      plan e (map (\<lambda>p. Plain (fold assign (updateData d) p))
                                  (filter (\<lambda>p. barcode p = bc) (products db)));
                    db' = db\<lparr>products :=
                             place e (map (\<lambda>p. if barcode p = bc
                                                then fold assign (updateData d) p else p)
                                          (products db))\<rparr>
                in case first_row returned of
                     None \<Rightarrow> (Inl (ProductNotFound bc), db)
                   | Some updated \<Rightarrow>
                       if accepts e db' then (Inr updated, db')
                       else (Inl ConstraintViolation, db))))"

text \<open>\<open>deleteProduct\<close> (lines 51-55 and 259-262).\<close>

definition deleteProduct ::
  "engine \<Rightarrow> database \<Rightarrow> string \<Rightarrow> (error + row option) \<times> database" where
  "deleteProduct e db bc =
     (if \<not> text_ok bc then (Inl InvalidByteSequence, db)
      else
        (let deleted = plan e (map Plain (filter (\<lambda>p. barcode p = bc) (products db)));
             db' = db\<lparr>products := place e (filter (\<lambda>p. barcode p \<noteq> bc) (products db))\<rparr>
         in case first_row deleted of
              None \<Rightarrow> (Inr None, db)
            | Some r \<Rightarrow>
                if accepts e db' then (Inr (Some r), db') else (Inl ConstraintViolation, db)))"

section \<open>Names for parts of the listings\<close>

text \<open>
  The condition \<open>q && q.trim() !== ''\<close> of \<open>getProducts\<close>, the offset it computes, and
  the result that both listings build from the parsed count and the rows of the page.
\<close>

definition searching :: "string option \<Rightarrow> bool" where
  "searching q = (case q of None \<Rightarrow> False | Some s \<Rightarrow> s \<noteq> [] \<and> trim s \<noteq> [])"

definition js_offset :: "int \<Rightarrow> int \<Rightarrow> int" where
  "js_offset page pageSize = fl (fl (page - 1) * pageSize)"

definition page_block :: "int \<Rightarrow> int \<Rightarrow> int \<Rightarrow> row list \<Rightarrow> page_result" where
  "page_block page pageSize totalRecords rows =
     \<lparr>data = rows,
      pagination =
        \<lparr>total_records = totalRecords, current_page = page,
         total_pages = math_ceil_div totalRecords pageSize,
         next_page =
           (if js_less page (math_ceil_div totalRecords pageSize) then Some (fl (page + 1))
            else None),
         prev_page = (if page > 1 then Some (fl (page - 1)) else None)\<rparr>\<rparr>"

section \<open>The words of the specification\<close>


text \<open>An update payload with no recognised field.\<close>

definition no_field_supplied :: "update_data \<Rightarrow> bool" where
  "no_field_supplied d =
     (u_barcode d = None \<and> u_name d = None \<and> u_branch_id d = None \<and> u_price d = None
      \<and> u_stock d = None \<and> u_real_price d = None \<and> u_tegs d = None
      \<and> u_category_id d = None \<and> u_description d = None \<and> u_imageUrls d = None)"

text \<open>The row \<open>p\<close> with the fields that an update payload supplies put in their columns.\<close>

definition overwrite :: "update_data \<Rightarrow> product \<Rightarrow> product" where
  "overwrite d p =
     \<lparr>barcode = (case u_barcode d of None \<Rightarrow> barcode p | Some v \<Rightarrow> v),
      name = (case u_name d of None \<Rightarrow> name p | Some v \<Rightarrow> v),
      branch_id = (case u_branch_id d of None \<Rightarrow> branch_id p | Some v \<Rightarrow> v),
      price = (case u_price d of None \<Rightarrow> price p | Some v \<Rightarrow> v),
      stock = (case u_stock d of None \<Rightarrow> stock p | Some v \<Rightarrow> v),
      real_price = (case u_real_price d of None \<Rightarrow> real_price p | Some v \<Rightarrow> v),
      category_id = (case u_category_id d of None \<Rightarrow> category_id p | Some v \<Rightarrow> v),
      description = (case u_description d of None \<Rightarrow> description p | Some v \<Rightarrow> Some v),
      tegs = (case u_tegs d of None \<Rightarrow> tegs p
              | Some ts \<Rightarrow> PgText (array_literal (map teg_text ts))),
      image_col = (case u_imageUrls d of None \<Rightarrow> image_col p
               | Some urls \<Rightarrow> PgText (array_literal urls)),
      updated_at = updated_at p\<rparr>"


text \<open>A query that can be bound as a text parameter.\<close>

definition query_ok :: "string option \<Rightarrow> bool" where
  "query_ok q = (case q of None \<Rightarrow> True | Some s \<Rightarrow> text_ok s)"

text \<open>
  Page numbers and sizes from one up to \<open>2^53\<close>, on which the arithmetic of the
  listings is exact, with an offset that is a bigint.
\<close>

definition pageable :: "int \<Rightarrow> int \<Rightarrow> bool" where
  "pageable page pageSize =
     (1 \<le> page \<and> page \<le> 9007199254740992 \<and> 1 \<le> pageSize \<and> pageSize \<le> 9007199254740992
      \<and> bigint (js_offset page pageSize))"

text \<open>Tables whose counts are doubles: at most \<open>2^53\<close> products and joined rows.\<close>

definition small :: "database \<Rightarrow> bool" where
  "small db =
     (int (length (products db)) \<le> 9007199254740992
      \<and> int (length (product_join_branch db)) \<le> 9007199254740992)"

section \<open>Example data\<close>

text \<open>
  A full-text match that finds nothing and one that finds everything; a database that
  yields rows in the order of the lists and refuses nothing, one that yields them in
  the opposite order and puts written rows the other way round, and one whose schema
  makes barcodes unique. All three take every value in every column.
\<close>

definition no_fts :: "string \<Rightarrow> string \<Rightarrow> bool" where
  "no_fts column_text query_text = False"

definition every_fts :: "string \<Rightarrow> string \<Rightarrow> bool" where
  "every_fts column_text query_text = True"

definition quiet :: engine where
  "quiet = \<lparr>fts = no_fts, plan = (\<lambda>rs. rs), place = (\<lambda>ps. ps), admits = (\<lambda>a. True),
             accepts = (\<lambda>db. True)\<rparr>"

definition contrary :: engine where
  "contrary = \<lparr>fts = every_fts, plan = rev, place = rev, admits = (\<lambda>a. True),
                accepts = (\<lambda>db. True)\<rparr>"

definition unique_barcodes :: engine where
  "unique_barcodes = \<lparr>fts = no_fts, plan = (\<lambda>rs. rs), place = (\<lambda>ps. ps),
                       admits = (\<lambda>a. True),
                       accepts = (\<lambda>db. distinct (map barcode (products db)))\<rparr>"

definition milk :: product where
  "milk = \<lparr>barcode = ''001'', name = ''Milk 1L'', branch_id = 1, price = 12, stock = 5,
           real_price = 10, category_id = 2, description = Some ''fresh'',
           tegs = PgText (array_literal [''new'']), image_col = PgNull, updated_at = 100\<rparr>"

definition bread :: product where
  "bread = \<lparr>barcode = ''002'', name = ''Bread'', branch_id = 1, price = 3, stock = 9,
            real_price = 2, category_id = 2, description = None,
            tegs = PgNull, image_col = PgNull, updated_at = 200\<rparr>"




definition shop :: database where
  "shop = \<lparr>products = [milk, bread], branches = [\<lparr>bid = 1, bname = ''Main''\<rparr>]\<rparr>"


definition emptied :: database where
  "emptied = \<lparr>products = [], branches = [\<lparr>bid = 1, bname = ''Main''\<rparr>]\<rparr>"

text \<open>Update payloads: nothing, a new price only, a new barcode only, image URLs only.\<close>

definition nothing :: update_data where
  "nothing = \<lparr>u_barcode = None, u_name = None, u_branch_id = None, u_price = None,
              u_stock = None, u_real_price = None, u_category_id = None,
              u_description = None, u_tegs = None, u_imageUrls = None\<rparr>"

definition only_price :: "rat \<Rightarrow> update_data" where
  "only_price v = nothing\<lparr>u_price := Some v\<rparr>"

definition only_barcode :: "string \<Rightarrow> update_data" where
  "only_barcode v = nothing\<lparr>u_barcode := Some v\<rparr>"

definition only_imageUrls :: "string list \<Rightarrow> update_data" where
  "only_imageUrls urls = nothing\<lparr>u_imageUrls := Some urls\<rparr>"

definition only_tegs :: "teg list \<Rightarrow> update_data" where
  "only_tegs ts = nothing\<lparr>u_tegs := Some ts\<rparr>"

text \<open>A creation payload with no tags, no image URLs and an empty description.\<close>

definition butter :: create_data where
  "butter = \<lparr>c_barcode = ''004'', c_name = ''Butter'', c_branch_id = 1, c_price = 7,
             c_stock = 3, c_category_id = 2, c_description = Some [], c_real_price = 6,
             c_tegs = [], c_imageUrls = None\<rparr>"

text \<open>A creation payload with two tags and one image URL.\<close>

definition cheese :: create_data where
  "cheese = \<lparr>c_barcode = ''005'', c_name = ''Cheese'', c_branch_id = 1, c_price = 9,
             c_stock = 4, c_category_id = 2, c_description = Some ''aged'', c_real_price = 8,
             c_tegs = [New, Sale], c_imageUrls = Some [''a.png'']\<rparr>"

section \<open>Numbers in range\<close>

lemma fl_exact: "\<bar>n\<bar> \<le> 9007199254740992 \<Longrightarrow> fl n = n"
  by (simp add: fl_def)

lemma fl_nonneg:
  assumes "0 \<le> n"
  shows "0 \<le> fl n"
proof (cases "\<bar>n\<bar> \<le> 9007199254740992")
  case True
  with assms show ?thesis by (simp add: fl_def)
next
  case False
  define u :: int where "u = 2 ^ (bit_length \<bar>n\<bar> - 53)"
  define q where "q = \<bar>n\<bar> div u"
  define r where "r = \<bar>n\<bar> mod u"
  define q' where "q' = (if u < 2 * r \<or> (u = 2 * r \<and> odd q) then q + 1 else q)"
  have u: "0 < u" by (simp add: u_def)
  then have "0 \<le> q" by (simp add: q_def pos_imp_zdiv_nonneg_iff)
  then have "0 \<le> q'" by (simp add: q'_def)
  moreover have "fl n = sgn n * q' * u"
    using False by (simp add: fl_def Let_def u_def q_def r_def q'_def)
  moreover have "0 \<le> sgn n" using assms by (auto simp add: sgn_if)
  ultimately show ?thesis using u by simp
qed

lemma limit_offset_returns:
  assumes "bigint n" and "bigint m" and "0 \<le> n" and "0 \<le> m"
  shows "limit_offset n m rs = Inr (take (nat n) (drop (nat m) rs))"
  using assms by (simp add: limit_offset_def)

lemma pageable_numbers:
  assumes "pageable page pageSize"
  shows "fl (page - 1) = page - 1" and "bigint pageSize" and "0 \<le> pageSize"
    and "bigint (js_offset page pageSize)" and "0 \<le> js_offset page pageSize"
proof -
  from assms have p: "1 \<le> page" "page \<le> 9007199254740992"
    and s: "1 \<le> pageSize" "pageSize \<le> 9007199254740992"
    and o: "bigint (js_offset page pageSize)"
    by (simp_all add: pageable_def)
  from p show e: "fl (page - 1) = page - 1" by (simp add: fl_exact)
  from s show "bigint pageSize" by (simp add: bigint_def)
  from s show "0 \<le> pageSize" by simp
  from o show "bigint (js_offset page pageSize)" .
  have "0 \<le> (page - 1) * pageSize" using p s by simp
  then show "0 \<le> js_offset page pageSize"
    unfolding js_offset_def e by (rule fl_nonneg)
qed

section \<open>Both listings, unfolded\<close>

lemma getProducts_plain:
  assumes "\<not> searching q"
  shows "getProducts e dbc dbd page pageSize q =
           map_sum id (page_block page pageSize (fl (int (length (products dbc)))))
             (select_joined_page e dbd pageSize (js_offset page pageSize))"
proof (cases q)
  case None
  then show ?thesis
    by (simp add: getProducts_def page_block_def js_offset_def count_products_def Let_def
        split: sum.splits split del: if_split cong: if_cong)
next
  case (Some s)
  show ?thesis
  proof (cases "s = []")
    case True
    then show ?thesis
      by (simp add: Some getProducts_def page_block_def js_offset_def count_products_def Let_def
          split: sum.splits split del: if_split cong: if_cong)
  next
    case False
    with assms Some have "trim s = []" by (simp add: searching_def)
    then show ?thesis
      by (simp add: Some getProducts_def page_block_def js_offset_def count_products_def Let_def
          split: sum.splits split del: if_split cong: if_cong)
  qed
qed

lemma getProducts_search:
  assumes "s \<noteq> []" and "trim s \<noteq> []"
  shows "getProducts e dbc dbd page pageSize (Some s) =
           (case count_search e dbc s (''%'' @ s @ ''%'') (''%'' @ s @ ''%'') of
              Inl err \<Rightarrow> Inl err
            | Inr cnt \<Rightarrow>
                map_sum id (page_block page pageSize (fl cnt))
                  (select_search_page e dbd s (''%'' @ s @ ''%'') (''%'' @ s @ ''%'') pageSize
                     (js_offset page pageSize)))"
  using assms
  by (simp add: getProducts_def page_block_def js_offset_def Let_def
      split: sum.splits split del: if_split cong: if_cong)

lemma selectAllProduct_alt:
  "selectAllProduct e dbc dbd page pageSize =
     map_sum id (page_block page pageSize (fl (int (length (products dbc)))))
       (selectAllProductQuery e dbd pageSize (js_offset page pageSize))"
  by (simp add: selectAllProduct_def page_block_def js_offset_def count_products_def Let_def
      split: sum.splits split del: if_split cong: if_cong)

lemma getProducts_search_ok:
  assumes "s \<noteq> []" and "trim s \<noteq> []" and "text_ok s"
  shows "getProducts e dbc dbd page pageSize (Some s) =
           map_sum id
             (page_block page pageSize
                (fl (int (length (filter (count_search_where (fts e) s (''%'' @ s @ ''%'')
                                            (''%'' @ s @ ''%''))
                                         (product_join_branch dbc))))))
             (limit_offset pageSize (js_offset page pageSize)
                (order_by_updated_at_desc
                   (plan e (map select_branch_name
                      (filter (data_search_where (fts e) s (''%'' @ s @ ''%'') (''%'' @ s @ ''%''))
                              (product_join_branch dbd))))))"
  using assms(3)
  by (simp add: getProducts_search[OF assms(1,2)] count_search_def select_search_page_def
      text_ok_def)

lemma getProducts_search_nul:
  assumes "s \<noteq> []" and "trim s \<noteq> []" and "\<not> text_ok s"
  shows "getProducts e dbc dbd page pageSize (Some s) = Inl InvalidByteSequence"
  using assms(3)
  by (simp add: getProducts_search[OF assms(1,2)] count_search_def)

lemma getProducts_returns:
  assumes "pageable page pageSize" and "query_ok q" and "small dbc"
  shows "\<exists>rows total. getProducts e dbc dbd page pageSize q = Inr (page_block page pageSize total rows)
           \<and> 0 \<le> total \<and> total \<le> 9007199254740992"
proof (cases "searching q")
  case False
  let ?n = "int (length (products dbc))"
  have n: "?n \<le> 9007199254740992" using assms(3) by (simp add: small_def)
  then have f: "fl ?n = ?n" by (simp add: fl_exact)
  have "getProducts e dbc dbd page pageSize q =
          Inr (page_block page pageSize ?n
                (take (nat pageSize) (drop (nat (js_offset page pageSize))
                   (order_by_updated_at_desc
                      (plan e (map select_branch_name (product_join_branch dbd)))))))"
    using pageable_numbers[OF assms(1)] False
    by (simp add: getProducts_plain select_joined_page_def limit_offset_returns f)
  with n show ?thesis by (intro exI[of _ _] exI[of _ ?n]) simp
next
  case True
  then obtain s where s: "q = Some s" "s \<noteq> []" "trim s \<noteq> []"
    by (auto simp add: searching_def split: option.splits)
  from assms(2) s(1) have t: "text_ok s" by (simp add: query_ok_def)
  let ?p = "''%'' @ s @ ''%''"
  let ?n = "int (length (filter (count_search_where (fts e) s ?p ?p) (product_join_branch dbc)))"
  have "?n \<le> int (length (product_join_branch dbc))" by simp
  with assms(3) have n: "?n \<le> 9007199254740992" unfolding small_def by linarith
  then have f: "fl ?n = ?n" by (simp add: fl_exact)
  have "getProducts e dbc dbd page pageSize q =
          Inr (page_block page pageSize ?n
                (take (nat pageSize) (drop (nat (js_offset page pageSize))
                   (order_by_updated_at_desc (plan e (map select_branch_name
                      (filter (data_search_where (fts e) s ?p ?p) (product_join_branch dbd))))))))"
    using pageable_numbers[OF assms(1)] f
    by (simp add: s(1) getProducts_search_ok[OF s(2,3) t] limit_offset_returns)
  with n show ?thesis by (intro exI[of _ _] exI[of _ ?n]) simp
qed

lemma selectAllProduct_returns:
  assumes "pageable page pageSize" and "small dbc"
  shows "\<exists>rows total. selectAllProduct e dbc dbd page pageSize = Inr (page_block page pageSize total rows)
           \<and> 0 \<le> total \<and> total \<le> 9007199254740992"
proof -
  let ?n = "int (length (products dbc))"
  have n: "?n \<le> 9007199254740992" using assms(2) by (simp add: small_def)
  then have f: "fl ?n = ?n" by (simp add: fl_exact)
  have "selectAllProduct e dbc dbd page pageSize =
          Inr (page_block page pageSize ?n
                (take (nat pageSize) (drop (nat (js_offset page pageSize))
                   (order_by_updated_at_desc (plan e (map Plain (products dbd)))))))"
    using pageable_numbers[OF assms(1)]
    by (simp add: selectAllProduct_alt selectAllProductQuery_def limit_offset_returns f)
  with n show ?thesis by (intro exI[of _ _] exI[of _ ?n]) simp
qed

lemma ceiling_pages_bounds:
  fixes t s :: int
  assumes "1 \<le> s"
  shows "(\<lceil>real_of_int t / real_of_int s\<rceil> - 1) * s < t \<and> t \<le> \<lceil>real_of_int t / real_of_int s\<rceil> * s"
proof -
  define d where "d = (- t) div s"
  define m where "m = (- t) mod s"
  have c: "\<lceil>real_of_int t / real_of_int s\<rceil> = - d"
    by (simp add: d_def ceiling_divide_eq_div)
  have e: "- t = d * s + m" by (simp add: d_def m_def)
  have m: "0 \<le> m" "m < s" using assms by (simp_all add: m_def)
  have "(- d - 1) * s = - (d * s) - s" by (simp add: algebra_simps)
  with e m show ?thesis unfolding c by (simp add: algebra_simps)
qed

lemma math_ceil_div_pos: "1 \<le> b \<Longrightarrow> math_ceil_div a b = Finite (- ((- a) div b))"
  by (simp add: math_ceil_div_def ceiling_divide_eq_div)

lemma ceiling_pages_le:
  fixes t s :: int
  assumes "1 \<le> s" and "0 \<le> t"
  shows "\<lceil>real_of_int t / real_of_int s\<rceil> \<le> t"
proof -
  let ?c = "\<lceil>real_of_int t / real_of_int s\<rceil>"
  show ?thesis
  proof (cases "?c \<le> 0")
    case True
    with assms(2) show ?thesis by linarith
  next
    case False
    then have "0 \<le> ?c - 1" by simp
    then have "?c - 1 \<le> (?c - 1) * s"
      using assms(1) by (simp add: mult_le_cancel_left1)
    also have "\<dots> < t" using ceiling_pages_bounds[OF assms(1), of t] by simp
    finally show ?thesis by simp
  qed
qed

section \<open>The pagination block\<close>

lemma fl_above_exact: "fl 9007199254740993 = 9007199254740992"
  by code_simp

text \<open>
  C2 as stated fails: a \<open>pageSize\<close> of \<open>10^19\<close> is no bigint and both listings end in
  the error of the database; and for the page \<open>2^53 + 2\<close> the subtraction rounds, so
  \<open>prev_page\<close> is \<open>2^53\<close> and not \<open>page - 1\<close>.
\<close>

theorem huge_pageSize_counterexample:
  "(1::int) \<le> 1 \<and> (1::int) \<le> 10000000000000000000
   \<and> getProducts quiet shop shop 1 10000000000000000000 None = Inl BigintOutOfRange
   \<and> selectAllProduct quiet shop shop 1 10000000000000000000 = Inl BigintOutOfRange
   \<and> getProducts quiet shop shop 9007199254740994 1 None =
       Inr \<lparr>data = [],
            pagination = \<lparr>total_records = 2, current_page = 9007199254740994,
                          total_pages = Finite 2, next_page = None,
                          prev_page = Some 9007199254740992\<rparr>\<rparr>"
proof -
  have n: "\<not> searching None" by (simp add: searching_def)
  have z: "fl 0 = 0" and t: "fl 2 = 2" and m: "fl 9007199254740992 = 9007199254740992"
    by (simp_all add: fl_def)
  have a: "getProducts quiet shop shop 1 10000000000000000000 None = Inl BigintOutOfRange"
    by (simp add: getProducts_plain[OF n] js_offset_def z select_joined_page_def
        limit_offset_def bigint_def)
  have b: "selectAllProduct quiet shop shop 1 10000000000000000000 = Inl BigintOutOfRange"
    by (simp add: selectAllProduct_alt js_offset_def z selectAllProductQuery_def
        limit_offset_def bigint_def)
  have l: "length (products shop) = 2"
    and j: "length (order_by_updated_at_desc
                      (plan quiet (map select_branch_name (product_join_branch shop)))) = 2"
    by (simp_all add: shop_def order_by_updated_at_desc_def product_join_branch_def quiet_def
        milk_def bread_def)
  have c: "getProducts quiet shop shop 9007199254740994 1 None =
       Inr \<lparr>data = [],
            pagination = \<lparr>total_records = 2, current_page = 9007199254740994,
                          total_pages = Finite 2, next_page = None,
                          prev_page = Some 9007199254740992\<rparr>\<rparr>"
    by (simp add: getProducts_plain[OF n] js_offset_def fl_above_exact m t l j page_block_def
        select_joined_page_def limit_offset_def bigint_def math_ceil_div_def)
  from a b c show ?thesis by simp
qed

text \<open>
  C2, amended. For \<open>page\<close> and \<open>pageSize\<close> from one up to \<open>2^53\<close> whose offset is a
  bigint, a query without a NUL character and tables of at most \<open>2^53\<close> rows,
  \<open>getProducts\<close> and \<open>selectAllProduct\<close> return, and in the pagination block they
  return \<open>total_pages\<close> is the ceiling of \<open>total_records / pageSize\<close> (the least number
  of pages of that size that hold all the records), \<open>next_page\<close> is \<open>page + 1\<close> when
  \<open>page < total_pages\<close> and null otherwise, and \<open>prev_page\<close> is \<open>page - 1\<close> when
  \<open>page > 1\<close> and null otherwise.
\<close>

theorem pagination_block:
  assumes "pageable page pageSize" and "query_ok q" and "small dbc"
    and "res = getProducts e dbc dbd page pageSize q
         \<or> res = selectAllProduct e dbc dbd page pageSize"
  shows "\<exists>r tp. res = Inr r
      \<and> current_page (pagination r) = page
      \<and> 0 \<le> total_records (pagination r)
      \<and> tp = \<lceil>real_of_int (total_records (pagination r)) / real_of_int pageSize\<rceil>
      \<and> (tp - 1) * pageSize < total_records (pagination r)
      \<and> total_records (pagination r) \<le> tp * pageSize
      \<and> total_pages (pagination r) = Finite tp
      \<and> next_page (pagination r) = (if page < tp then Some (page + 1) else None)
      \<and> prev_page (pagination r) = (if 1 < page then Some (page - 1) else None)"
proof -
  from assms obtain rows total where
    res: "res = Inr (page_block page pageSize total rows)"
    and total: "0 \<le> total" "total \<le> 9007199254740992"
    using getProducts_returns[of page pageSize q dbc e dbd]
      selectAllProduct_returns[of page pageSize dbc e dbd]
    by blast
  from assms(1) have s: "1 \<le> pageSize" and p: "1 \<le> page" "page \<le> 9007199254740992"
    by (simp_all add: pageable_def)
  let ?tp = "\<lceil>real_of_int total / real_of_int pageSize\<rceil>"
  have m: "math_ceil_div total pageSize = Finite ?tp"
    using s by (simp add: math_ceil_div_def)
  have le: "?tp \<le> total" using s total(1) by (rule ceiling_pages_le)
  have nx: "fl (page + 1) = page + 1" if "page < ?tp"
    using that le total(2) p(1) by (simp add: fl_exact)
  have pv: "fl (page - 1) = page - 1" using p by (simp add: fl_exact)
  show ?thesis
    using ceiling_pages_bounds[OF s, of total] total(1) nx
    by (simp add: res page_block_def m pv)
qed

theorem pagination_block_witness:
  "pageable 2 1 \<and> query_ok (Some ''  '') \<and> small shop \<and>
   (\<exists>r. getProducts quiet shop shop 2 1 (Some ''  '') = Inr r
     \<and> pagination r = \<lparr>total_records = 2, current_page = 2, total_pages = Finite 2,
                        next_page = None, prev_page = Some 1\<rparr>)"
proof -
  have a: "pageable 2 1" by (simp add: pageable_def js_offset_def fl_def bigint_def)
  have b: "query_ok (Some ''  '')" by (simp add: query_ok_def text_ok_def)
  have c: "small shop" by (simp add: small_def shop_def product_join_branch_def milk_def bread_def)
  obtain r tp where r: "getProducts quiet shop shop 2 1 (Some ''  '') = Inr r"
    "current_page (pagination r) = 2"
    "tp = \<lceil>real_of_int (total_records (pagination r)) / real_of_int 1\<rceil>"
    "total_pages (pagination r) = Finite tp"
    "next_page (pagination r) = (if 2 < tp then Some (2 + 1) else None)"
    "prev_page (pagination r) = (if (1::int) < 2 then Some (2 - 1) else None)"
    using pagination_block[OF a b c, of "getProducts quiet shop shop 2 1 (Some ''  '')" quiet shop]
    by blast
  have s: "\<not> searching (Some ''  '')" by (simp add: searching_def trim_def js_whitespace_def)
  have t: "total_records (pagination r) = 2"
    using r(1)
    by (auto simp add: getProducts_plain[OF s] page_block_def shop_def fl_def
        select_joined_page_def limit_offset_def split: if_splits)
  from a b c show ?thesis using r t by (cases r, cases "pagination r") (auto)
qed

section \<open>Plans, sorting and joining\<close>

lemma fair_plan: "fair e \<Longrightarrow> mset (plan e rs) = mset rs"
  by (simp add: fair_def)

lemma fair_place: "fair e \<Longrightarrow> mset (place e ps) = mset ps"
  by (simp add: fair_def)

lemma set_plan: "fair e \<Longrightarrow> set (plan e rs) = set rs"
  by (metis fair_plan set_mset_mset)

lemma length_plan: "fair e \<Longrightarrow> length (plan e rs) = length rs"
  by (metis fair_plan size_mset)

lemma plan_Nil: "fair e \<Longrightarrow> plan e [] = []"
  using fair_plan[of e "[]"] by simp

lemma plan_single: "fair e \<Longrightarrow> plan e [r] = [r]"
  using fair_plan[of e "[r]"] by simp

lemma mset_order_by: "mset (order_by_updated_at_desc rs) = mset rs"
  by (simp add: order_by_updated_at_desc_def)

lemma set_order_by: "set (order_by_updated_at_desc rs) = set rs"
  by (simp add: order_by_updated_at_desc_def)


lemma sorted_order_by:
  "sorted (map (\<lambda>r. - updated_at (row_product r)) (order_by_updated_at_desc rs))"
  unfolding order_by_updated_at_desc_def by (rule sorted_sort_key)

lemma join_one_branch:
  assumes "\<forall>p\<in>set ps. length (f p) = 1"
  shows "map fst (concat (map (\<lambda>p. map (\<lambda>b. (p, b)) (f p)) ps)) = ps"
  using assms
proof (induction ps)
  case Nil
  then show ?case by simp
next
  case (Cons p ps)
  then have "length (f p) = 1" by simp
  then obtain b where "f p = [b]" by (cases "f p") auto
  with Cons show ?case by simp
qed

lemma joined_products:
  assumes "\<forall>p\<in>set (products db). length (filter (\<lambda>b. bid b = branch_id p) (branches db)) = 1"
  shows "map row_product (map select_branch_name (product_join_branch db)) = products db"
proof -
  have "map row_product (map select_branch_name (product_join_branch db))
          = map fst (product_join_branch db)"
    by (simp add: select_branch_name_def)
  also have "\<dots> = products db"
    unfolding product_join_branch_def using assms by (rule join_one_branch)
  finally show ?thesis .
qed

lemma set_product_join_branch:
  "set (product_join_branch db) =
     {(p, b). p \<in> set (products db) \<and> b \<in> set (branches db) \<and> bid b = branch_id p}"
  by (auto simp add: product_join_branch_def)

lemma listed_products:
  assumes "fair e"
  shows "mset (map row_product (order_by_updated_at_desc (plan e rs))) = mset (map row_product rs)"
proof -
  have "mset (map row_product (order_by_updated_at_desc (plan e rs)))
          = image_mset row_product (mset (order_by_updated_at_desc (plan e rs)))"
    by simp
  also have "\<dots> = image_mset row_product (mset rs)"
    by (simp only: mset_order_by fair_plan[OF assms])
  finally show ?thesis by simp
qed

lemma newest_first_unique:
  fixes xs ys ps :: "product list"
  assumes "mset xs = mset ps" and "mset ys = mset ps"
    and "sorted (map (\<lambda>p. - updated_at p) xs)" and "sorted (map (\<lambda>p. - updated_at p) ys)"
    and "distinct (map updated_at ps)"
  shows "xs = ys"
proof -
  let ?f = "\<lambda>p::product. - updated_at p"
  have d: "distinct (map ?f ps)"
    using assms(5) by (simp add: distinct_map inj_on_def)
  have sx: "set xs = set ps" and sy: "set ys = set ps"
    using assms(1,2) by (metis set_mset_mset)+
  have dx: "distinct (map ?f xs)"
    using d assms(1) by (metis mset_eq_imp_distinct_iff mset_map)
  have dy: "distinct (map ?f ys)"
    using d assms(2) by (metis mset_eq_imp_distinct_iff mset_map)
  have "inj_on ?f (set xs \<union> set ys)"
    using d by (simp add: sx sy distinct_map)
  then show ?thesis
    using assms(3) dx assms(4) dy sx sy by (intro map_sorted_distinct_set_unique[of ?f xs ys]) simp_all
qed

section \<open>\<open>selectAllProduct\<close> and \<open>getProducts\<close> without a query\<close>

text \<open>
  C1 as stated fails: the rows of \<open>getProducts\<close> come from the join with \<open>branch\<close> and
  carry \<open>branch_name\<close>, the rows of \<open>selectAllProduct\<close> do not.
\<close>

theorem listings_differ_counterexample:
  "(1::int) \<le> 1 \<and> (1::int) \<le> 10
   \<and> getProducts quiet shop shop 1 10 None \<noteq> selectAllProduct quiet shop shop 1 10"
proof -
  have n: "\<not> searching None" by (simp add: searching_def)
  have z: "js_offset 1 10 = 0" by (simp add: js_offset_def fl_def)
  have g: "getProducts quiet shop shop 1 10 None =
             Inr (page_block 1 10 2 [Joined bread ''Main'', Joined milk ''Main''])"
    by (simp add: getProducts_plain[OF n] z select_joined_page_def limit_offset_def bigint_def
        order_by_updated_at_desc_def product_join_branch_def select_branch_name_def quiet_def
        shop_def milk_def bread_def fl_def)
  have a: "selectAllProduct quiet shop shop 1 10 =
             Inr (page_block 1 10 2 [Plain bread, Plain milk])"
    by (simp add: selectAllProduct_alt z selectAllProductQuery_def limit_offset_def bigint_def
        order_by_updated_at_desc_def quiet_def shop_def milk_def bread_def fl_def)
  show ?thesis unfolding g a by (simp add: page_block_def)
qed

text \<open>
  C1, amended. For \<open>page\<close> and \<open>pageSize\<close> from one up to \<open>2^53\<close> whose offset is a
  bigint, \<open>selectAllProduct\<close> and \<open>getProducts\<close> without \<open>q\<close>, on the same tables, both
  return, with the same pagination block. The rows of \<open>selectAllProduct\<close> are bare
  product rows; the rows of \<open>getProducts\<close> are products joined with a branch of
  theirs, with its name. When every product has exactly one row in \<open>branch\<close> and no two
  products have the same \<open>updated_at\<close>, the two pages list the same products in the
  same order, whatever order the database yields rows in.
\<close>

theorem listings_agree:
  assumes "fair e" and "fair e'" and "pageable page pageSize"
  shows "\<exists>g a. getProducts e dbc dbd page pageSize None = Inr g
           \<and> selectAllProduct e' dbc dbd page pageSize = Inr a
           \<and> pagination g = pagination a
           \<and> (\<forall>r\<in>set (data a). \<exists>p. r = Plain p \<and> p \<in> set (products dbd))
           \<and> (\<forall>r\<in>set (data g). \<exists>p b. r = Joined p (bname b) \<and> p \<in> set (products dbd)
                  \<and> b \<in> set (branches dbd) \<and> bid b = branch_id p)
           \<and> ((\<forall>p\<in>set (products dbd).
                  length (filter (\<lambda>b. bid b = branch_id p) (branches dbd)) = 1)
                \<and> distinct (map updated_at (products dbd))
                \<longrightarrow> map row_product (data g) = map row_product (data a))"
proof -
  let ?n = "nat pageSize" and ?m = "nat (js_offset page pageSize)"
  let ?t = "fl (int (length (products dbc)))"
  let ?J = "order_by_updated_at_desc (plan e (map select_branch_name (product_join_branch dbd)))"
  let ?P = "order_by_updated_at_desc (plan e' (map Plain (products dbd)))"
  let ?g = "page_block page pageSize ?t (take ?n (drop ?m ?J))"
  let ?a = "page_block page pageSize ?t (take ?n (drop ?m ?P))"
  note num = pageable_numbers[OF assms(3)]
  have g: "getProducts e dbc dbd page pageSize None = Inr ?g"
    using num
    by (simp add: getProducts_plain searching_def select_joined_page_def limit_offset_returns)
  have a: "selectAllProduct e' dbc dbd page pageSize = Inr ?a"
    using num by (simp add: selectAllProduct_alt selectAllProductQuery_def limit_offset_returns)
  have pg: "pagination ?g = pagination ?a" by (simp add: page_block_def)
  have plain: "\<forall>r\<in>set (data ?a). \<exists>p. r = Plain p \<and> p \<in> set (products dbd)"
  proof
    fix r assume "r \<in> set (data ?a)"
    then have "r \<in> set ?P" by (auto simp add: page_block_def dest: in_set_takeD in_set_dropD)
    then show "\<exists>p. r = Plain p \<and> p \<in> set (products dbd)"
      by (auto simp add: set_order_by set_plan[OF assms(2)])
  qed
  have joined: "\<forall>r\<in>set (data ?g). \<exists>p b. r = Joined p (bname b) \<and> p \<in> set (products dbd)
                  \<and> b \<in> set (branches dbd) \<and> bid b = branch_id p"
  proof
    fix r assume "r \<in> set (data ?g)"
    then have "r \<in> set ?J" by (auto simp add: page_block_def dest: in_set_takeD in_set_dropD)
    then obtain pb where "pb \<in> set (product_join_branch dbd)" "r = select_branch_name pb"
      by (auto simp add: set_order_by set_plan[OF assms(1)])
    then show "\<exists>p b. r = Joined p (bname b) \<and> p \<in> set (products dbd)
                  \<and> b \<in> set (branches dbd) \<and> bid b = branch_id p"
      by (auto simp add: set_product_join_branch select_branch_name_def)
  qed
  have same: "map row_product (data ?g) = map row_product (data ?a)"
    if h: "(\<forall>p\<in>set (products dbd).
              length (filter (\<lambda>b. bid b = branch_id p) (branches dbd)) = 1)
           \<and> distinct (map updated_at (products dbd))"
  proof -
    from h have one: "\<forall>p\<in>set (products dbd).
              length (filter (\<lambda>b. bid b = branch_id p) (branches dbd)) = 1"
      and d: "distinct (map updated_at (products dbd))" by simp_all
    have mj: "mset (map row_product ?J) = mset (products dbd)"
      by (simp only: listed_products[OF assms(1)] joined_products[OF one])
    have mp: "mset (map row_product ?P) = mset (products dbd)"
      by (simp only: listed_products[OF assms(2)]) (simp add: comp_def)
    have sj: "sorted (map (\<lambda>p. - updated_at p) (map row_product ?J))"
      using sorted_order_by[of "plan e (map select_branch_name (product_join_branch dbd))"]
      by (simp add: comp_def)
    have sp: "sorted (map (\<lambda>p. - updated_at p) (map row_product ?P))"
      using sorted_order_by[of "plan e' (map Plain (products dbd))"]
      by (simp add: comp_def)
    have "map row_product ?J = map row_product ?P"
      using mj mp sj sp d by (rule newest_first_unique)
    then show ?thesis
      by (simp add: page_block_def take_map[symmetric] drop_map[symmetric] del: take_map drop_map)
  qed
  from g a pg plain joined same show ?thesis by blast
qed

theorem listings_agree_witness:
  "fair quiet \<and> fair contrary \<and> pageable 1 1
   \<and> list_all (\<lambda>p. length (filter (\<lambda>b. bid b = branch_id p) (branches shop)) = 1)
        (products shop)
   \<and> distinct (map updated_at (products shop))
   \<and> (\<exists>g a. getProducts quiet shop shop 1 1 None = Inr g
          \<and> selectAllProduct contrary shop shop 1 1 = Inr a
          \<and> pagination g = pagination a
          \<and> data g = [Joined bread ''Main''] \<and> data a = [Plain bread]
          \<and> map row_product (data g) = map row_product (data a))"
proof -
  have f: "fair quiet" and f': "fair contrary" by (simp_all add: fair_def quiet_def contrary_def)
  have h: "pageable 1 1" by (simp add: pageable_def js_offset_def fl_def bigint_def)
  have one: "\<forall>p\<in>set (products shop). length (filter (\<lambda>b. bid b = branch_id p) (branches shop)) = 1"
    by (simp add: shop_def milk_def bread_def)
  have d: "distinct (map updated_at (products shop))"
    by (simp add: shop_def milk_def bread_def)
  obtain g a where ga: "getProducts quiet shop shop 1 1 None = Inr g"
    "selectAllProduct contrary shop shop 1 1 = Inr a"
    "pagination g = pagination a"
    "(\<forall>p\<in>set (products shop). length (filter (\<lambda>b. bid b = branch_id p) (branches shop)) = 1)
       \<and> distinct (map updated_at (products shop))
       \<longrightarrow> map row_product (data g) = map row_product (data a)"
    using listings_agree[OF f f' h, of shop shop] by blast
  have n: "\<not> searching None" by (simp add: searching_def)
  have z: "js_offset 1 1 = 0" by (simp add: js_offset_def fl_def)
  have dg: "data g = [Joined bread ''Main'']"
    using ga(1)
    by (auto simp add: getProducts_plain[OF n] z page_block_def select_joined_page_def
        limit_offset_def bigint_def order_by_updated_at_desc_def product_join_branch_def
        select_branch_name_def quiet_def shop_def milk_def bread_def)
  have da: "data a = [Plain bread]"
    using ga(2)
    by (auto simp add: selectAllProduct_alt z page_block_def selectAllProductQuery_def
        limit_offset_def bigint_def order_by_updated_at_desc_def contrary_def shop_def
        milk_def bread_def)
  from one have "list_all (\<lambda>p. length (filter (\<lambda>b. bid b = branch_id p) (branches shop)) = 1)
        (products shop)"
    by (simp only: list_all_iff)
  with f f' h one d ga dg da show ?thesis by blast
qed

section \<open>Listing without a search filter\<close>







section \<open>The search filter of \<open>getProducts\<close>\<close>

lemma where_clauses_equal: "count_search_where ft = data_search_where ft"
  by (intro ext) (simp add: count_search_where_def data_search_where_def)

text \<open>
  C6 as stated fails: the two statements are awaited one after the other, outside a
  transaction. When the products are deleted between them, \<open>total_records\<close> is one and
  the page is sliced from no row.
\<close>

theorem count_and_page_apart_counterexample:
  "searching (Some ''milk'')
   \<and> filter (data_search_where (fts quiet) ''milk'' ''%milk%'' ''%milk%'')
        (product_join_branch emptied) = []
   \<and> getProducts quiet shop emptied 1 10 (Some ''milk'') =
       Inr \<lparr>data = [],
            pagination = \<lparr>total_records = 1, current_page = 1, total_pages = Finite 1,
                          next_page = None, prev_page = None\<rparr>\<rparr>"
proof -
  have s: "''milk'' \<noteq> []" "trim ''milk'' \<noteq> []" and t: "text_ok ''milk''"
    by (simp_all add: trim_def js_whitespace_def text_ok_def)
  have z: "js_offset 1 10 = 0" and o: "fl 1 = 1" by (simp_all add: js_offset_def fl_def)
  have d: "filter (data_search_where (fts quiet) ''milk'' ''%milk%'' ''%milk%'')
             (product_join_branch emptied) = []"
    by (simp add: product_join_branch_def emptied_def)
  have c: "filter (count_search_where (fts quiet) ''milk'' ''%milk%'' ''%milk%'')
             (product_join_branch shop) = [(milk, \<lparr>bid = 1, bname = ''Main''\<rparr>)]"
    by (simp add: count_search_where_def no_fts_def ilike_def lower_char_def quiet_def
        product_join_branch_def shop_def milk_def bread_def)
  have g: "getProducts quiet shop emptied 1 10 (Some ''milk'') =
       Inr \<lparr>data = [],
            pagination = \<lparr>total_records = 1, current_page = 1, total_pages = Finite 1,
                          next_page = None, prev_page = None\<rparr>\<rparr>"
    using c d
    by (simp add: getProducts_search_ok[OF s t] z o limit_offset_def bigint_def
        order_by_updated_at_desc_def quiet_def page_block_def math_ceil_div_pos)
  from s d g show ?thesis by (simp add: searching_def)
qed

text \<open>
  C6, amended. For a non-blank \<open>q\<close>, the \<open>WHERE\<close> clause of the counting statement of
  \<open>getProducts\<close> is the \<open>WHERE\<close> clause of its data statement, with the same values
  bound: \<open>total_records\<close> is the (parsed) number of the joined rows that satisfy it when
  the counting statement runs, and the page is sliced from the joined rows that
  satisfy it when the data statement runs. When the tables do not change between the
  two statements (and at most \<open>2^53\<close> rows match), \<open>total_records\<close> is the number of the
  rows from which the page is sliced. The method fails only when \<open>q\<close> has a NUL
  character or \<open>LIMIT\<close> or \<open>OFFSET\<close> is no bigint or negative.
\<close>

theorem search_count_is_of_sliced_rows:
  assumes "searching (Some q)" and "fair e"
  shows "count_search_where (fts e) = data_search_where (fts e)
       \<and> (let pat = ''%'' @ q @ ''%'';
               C = filter (count_search_where (fts e) q pat pat) (product_join_branch dbc);
               D = filter (data_search_where (fts e) q pat pat) (product_join_branch dbd)
           in case getProducts e dbc dbd page pageSize (Some q) of
                Inl err \<Rightarrow>
                  \<not> text_ok q \<or> \<not> bigint pageSize \<or> \<not> bigint (js_offset page pageSize)
                  \<or> pageSize < 0 \<or> js_offset page pageSize < 0
              | Inr r \<Rightarrow>
                  text_ok q
                  \<and> total_records (pagination r) = fl (int (length C))
                  \<and> (\<exists>L. mset L = mset (map select_branch_name D)
                        \<and> data r = take (nat pageSize) (drop (nat (js_offset page pageSize)) L))
                  \<and> (dbc = dbd \<and> int (length D) \<le> 9007199254740992 \<longrightarrow>
                        total_records (pagination r) = int (length D)))"
proof -
  let ?pat = "''%'' @ q @ ''%''"
  let ?C = "filter (count_search_where (fts e) q ?pat ?pat) (product_join_branch dbc)"
  let ?D = "filter (data_search_where (fts e) q ?pat ?pat) (product_join_branch dbd)"
  let ?L = "order_by_updated_at_desc (plan e (map select_branch_name ?D))"
  have w: "count_search_where (fts e) = data_search_where (fts e)" by (rule where_clauses_equal)
  from assms(1) have q: "q \<noteq> []" "trim q \<noteq> []" by (simp_all add: searching_def)
  have m: "mset ?L = mset (map select_branch_name ?D)"
    by (simp only: mset_order_by fair_plan[OF assms(2)])
  have main: "case getProducts e dbc dbd page pageSize (Some q) of
                Inl err \<Rightarrow>
                  \<not> text_ok q \<or> \<not> bigint pageSize \<or> \<not> bigint (js_offset page pageSize)
                  \<or> pageSize < 0 \<or> js_offset page pageSize < 0
              | Inr r \<Rightarrow>
                  text_ok q
                  \<and> total_records (pagination r) = fl (int (length ?C))
                  \<and> (\<exists>L. mset L = mset (map select_branch_name ?D)
                        \<and> data r = take (nat pageSize) (drop (nat (js_offset page pageSize)) L))
                  \<and> (dbc = dbd \<and> int (length ?D) \<le> 9007199254740992 \<longrightarrow>
                        total_records (pagination r) = int (length ?D))"
  proof (cases "text_ok q")
    case False
    then show ?thesis by (simp add: getProducts_search_nul[OF q])
  next
    case True
    show ?thesis
    proof (cases "\<not> bigint pageSize \<or> \<not> bigint (js_offset page pageSize)
                  \<or> pageSize < 0 \<or> js_offset page pageSize < 0")
      case bad: True
      then show ?thesis
        by (auto simp add: getProducts_search_ok[OF q True] limit_offset_def)
    next
      case False
      then have r: "getProducts e dbc dbd page pageSize (Some q) =
          Inr (page_block page pageSize (fl (int (length ?C)))
                 (take (nat pageSize) (drop (nat (js_offset page pageSize)) ?L)))"
        by (simp add: getProducts_search_ok[OF q True] limit_offset_def)
      have "dbc = dbd \<and> int (length ?D) \<le> 9007199254740992 \<longrightarrow>
              fl (int (length ?C)) = int (length ?D)"
        by (auto simp add: w fl_exact)
      with True m show ?thesis
        unfolding r by (auto simp add: page_block_def)
    qed
  qed
  show ?thesis unfolding Let_def using w main by (rule conjI)
qed

theorem search_count_is_of_sliced_rows_witness:
  "searching (Some ''milk'') \<and> fair quiet
   \<and> (\<exists>r. getProducts quiet shop shop 1 1 (Some ''milk'') = Inr r
         \<and> total_records (pagination r) = 1 \<and> data r = [Joined milk ''Main''])"
proof -
  have s: "searching (Some ''milk'')"
    by (simp add: searching_def trim_def js_whitespace_def)
  have f: "fair quiet" by (simp add: fair_def quiet_def)
  have D: "filter (data_search_where (fts quiet) ''milk'' ''%milk%'' ''%milk%'')
             (product_join_branch shop) = [(milk, \<lparr>bid = 1, bname = ''Main''\<rparr>)]"
    by (simp add: data_search_where_def no_fts_def ilike_def lower_char_def quiet_def
        product_join_branch_def shop_def milk_def bread_def)
  have q: "''milk'' \<noteq> []" "trim ''milk'' \<noteq> []" and t: "text_ok ''milk''"
    by (simp_all add: trim_def js_whitespace_def text_ok_def)
  have z: "js_offset 1 1 = 0" by (simp add: js_offset_def fl_def)
  obtain r where r: "getProducts quiet shop shop 1 1 (Some ''milk'') = Inr r"
    by (simp add: getProducts_search_ok[OF q t] z limit_offset_def bigint_def)
  from search_count_is_of_sliced_rows[OF s f, of shop shop 1 1] r D
  have n: "total_records (pagination r) = 1" by (simp add: Let_def fl_def)
  from r D have d: "data r = [Joined milk ''Main'']"
    by (auto simp add: getProducts_search_ok[OF q t] z limit_offset_def bigint_def
        order_by_updated_at_desc_def quiet_def select_branch_name_def page_block_def)
  from s f r n d show ?thesis by blast
qed

section \<open>Patterns built from the query\<close>










section \<open>Search by substring\<close>




section \<open>Array literals\<close>

lemma join_Cons: "join sep (x # xs) = x @ concat (map (\<lambda>y. sep @ y) xs)"
  by (induction xs arbitrary: x) simp_all

lemma array_literal_Nil: "array_literal [] = ''{}''"
  by (simp add: array_literal_def)

lemma array_literal_Cons:
  "array_literal (x # xs) =
     ''{'' @ [CHR 0x22] @ x @ [CHR 0x22]
       @ concat (map (\<lambda>y. '','' @ [CHR 0x22] @ y @ [CHR 0x22]) xs) @ ''}''"
  by (simp add: array_literal_def join_Cons comp_def)

lemma array_literal_not_empty: "xs \<noteq> [] \<Longrightarrow> array_literal xs \<noteq> ''{}''"
  by (cases xs) (simp_all add: array_literal_Cons)

lemma text_ok_array_literal: "text_ok (array_literal xs) = list_all text_ok xs"
proof (cases xs)
  case Nil
  then show ?thesis by (simp add: array_literal_Nil text_ok_def)
next
  case (Cons x ys)
  have "CHR 0x00 \<in> set (concat (map (\<lambda>y. '','' @ [CHR 0x22] @ y @ [CHR 0x22]) ys))
          \<longleftrightarrow> (\<exists>y\<in>set ys. CHR 0x00 \<in> set y)"
    by (induction ys) auto
  then show ?thesis
    by (auto simp add: Cons array_literal_Cons text_ok_def list_all_iff)
qed

section \<open>The update set\<close>

lemma key_if_defined_Nil: "key_if_defined k x = [] \<longleftrightarrow> x = None"
  by (cases x) simp_all

lemma updateData_Nil: "updateData d = [] \<longleftrightarrow> no_field_supplied d"
  by (simp add: updateData_def no_field_supplied_def key_if_defined_Nil)

lemma list_all_key_if_defined:
  "list_all P (key_if_defined k x) = (case x of None \<Rightarrow> True | Some v \<Rightarrow> P (k v))"
  by (cases x) simp_all

lemma bind_error_None:
  "bind_error e as = None \<longleftrightarrow> list_all (\<lambda>a. assignment_text_ok a \<and> admits e a) as"
  by (induction as) simp_all

lemma bind_error_Some:
  "bind_error e as = Some err \<Longrightarrow> err = InvalidByteSequence \<or> err = InvalidParameter"
  by (induction as) (simp_all split: if_splits)

lemma fold_updateData: "fold assign (updateData d) p = overwrite d p"
proof -
  define p1 where "p1 = fold assign (key_if_defined SetBarcode (u_barcode d)) p"
  define p2 where "p2 = fold assign (key_if_defined SetName (u_name d)) p1"
  define p3 where "p3 = fold assign (key_if_defined SetBranchId (u_branch_id d)) p2"
  define p4 where "p4 = fold assign (key_if_defined SetPrice (u_price d)) p3"
  define p5 where "p5 = fold assign (key_if_defined SetStock (u_stock d)) p4"
  define p6 where "p6 = fold assign (key_if_defined SetRealPrice (u_real_price d)) p5"
  define p7 where "p7 = fold assign (key_if_defined SetTegs (u_tegs d)) p6"
  define p8 where "p8 = fold assign (key_if_defined SetCategoryId (u_category_id d)) p7"
  define p9 where "p9 = fold assign (key_if_defined SetDescription (u_description d)) p8"
  define p10 where
    "p10 = fold assign (key_if_defined SetImage (map_option array_literal (u_imageUrls d))) p9"
  have all: "fold assign (updateData d) p = p10"
    by (simp add: updateData_def p1_def p2_def p3_def p4_def p5_def p6_def p7_def p8_def
        p9_def p10_def)
  have e1: "p1 = p\<lparr>barcode := (case u_barcode d of None \<Rightarrow> barcode p | Some v \<Rightarrow> v)\<rparr>"
    unfolding p1_def by (cases "u_barcode d") simp_all
  have e2: "p2 = p1\<lparr>name := (case u_name d of None \<Rightarrow> name p | Some v \<Rightarrow> v)\<rparr>"
    unfolding p2_def by (cases "u_name d") (simp_all add: e1)
  have e3: "p3 = p2\<lparr>branch_id := (case u_branch_id d of None \<Rightarrow> branch_id p | Some v \<Rightarrow> v)\<rparr>"
    unfolding p3_def by (cases "u_branch_id d") (simp_all add: e1 e2)
  have e4: "p4 = p3\<lparr>price := (case u_price d of None \<Rightarrow> price p | Some v \<Rightarrow> v)\<rparr>"
    unfolding p4_def by (cases "u_price d") (simp_all add: e1 e2 e3)
  have e5: "p5 = p4\<lparr>stock := (case u_stock d of None \<Rightarrow> stock p | Some v \<Rightarrow> v)\<rparr>"
    unfolding p5_def by (cases "u_stock d") (simp_all add: e1 e2 e3 e4)
  have e6: "p6 = p5\<lparr>real_price := (case u_real_price d of None \<Rightarrow> real_price p | Some v \<Rightarrow> v)\<rparr>"
    unfolding p6_def by (cases "u_real_price d") (simp_all add: e1 e2 e3 e4 e5)
  have e7: "p7 = p6\<lparr>tegs := (case u_tegs d of None \<Rightarrow> tegs p
                                | Some ts \<Rightarrow> PgText (array_literal (map teg_text ts)))\<rparr>"
    unfolding p7_def by (cases "u_tegs d") (simp_all add: e1 e2 e3 e4 e5 e6)
  have e8: "p8 = p7\<lparr>category_id := (case u_category_id d of None \<Rightarrow> category_id p | Some v \<Rightarrow> v)\<rparr>"
    unfolding p8_def by (cases "u_category_id d") (simp_all add: e1 e2 e3 e4 e5 e6 e7)
  have e9: "p9 = p8\<lparr>description := (case u_description d of None \<Rightarrow> description p | Some v \<Rightarrow> Some v)\<rparr>"
    unfolding p9_def by (cases "u_description d") (simp_all add: e1 e2 e3 e4 e5 e6 e7 e8)
  have e10: "p10 = p9\<lparr>image_col := (case u_imageUrls d of None \<Rightarrow> image_col p
               | Some urls \<Rightarrow> PgText (array_literal urls))\<rparr>"
    unfolding p10_def by (cases "u_imageUrls d") (simp_all add: e1 e2 e3 e4 e5 e6 e7 e8 e9)
  show ?thesis
    unfolding all overwrite_def by (simp add: e1 e2 e3 e4 e5 e6 e7 e8 e9 e10)
qed

lemma filter_no_match:
  assumes "\<forall>p\<in>set ps. barcode p \<noteq> bc"
  shows "filter (\<lambda>p. barcode p = bc) ps = []"
  using assms by (induction ps) simp_all

lemma first_row_plan:
  assumes "fair e" and "rs \<noteq> []"
  shows "\<exists>r. first_row (plan e rs) = Some r \<and> r \<in> set rs"
proof (cases "plan e rs")
  case Nil
  with length_plan[OF assms(1), of rs] assms(2) show ?thesis by simp
next
  case (Cons r rest)
  then have "r \<in> set (plan e rs)" by simp
  then have "r \<in> set rs" by (simp add: set_plan[OF assms(1)])
  with Cons show ?thesis by simp
qed

lemma updateProduct_empty:
  assumes "no_field_supplied d"
  shows "updateProduct e db bc d = (Inl NoFieldsSupplied, db)"
  using assms by (simp add: updateProduct_def updateData_Nil)

lemma updateProduct_refused:
  assumes "\<not> no_field_supplied d" and "bind_error e (updateData d) = Some err"
  shows "updateProduct e db bc d = (Inl err, db)"
  using assms by (simp add: updateProduct_def updateData_Nil)

lemma updateProduct_nul:
  assumes "\<not> no_field_supplied d" and "bind_error e (updateData d) = None"
    and "\<not> text_ok bc"
  shows "updateProduct e db bc d = (Inl InvalidByteSequence, db)"
  using assms by (simp add: updateProduct_def updateData_Nil)

lemma updateProduct_missing:
  assumes "fair e" and "\<not> no_field_supplied d" and "bind_error e (updateData d) = None"
    and "text_ok bc" and "\<forall>p\<in>set (products db). barcode p \<noteq> bc"
  shows "updateProduct e db bc d = (Inl (ProductNotFound bc), db)"
  using assms(2,3,4)
  by (simp add: updateProduct_def updateData_Nil Let_def
      filter_no_match[OF assms(5)] plan_Nil[OF assms(1)])

lemma updateProduct_found:
  assumes "fair e" and "\<not> no_field_supplied d" and "bind_error e (updateData d) = None"
    and "text_ok bc" and "\<exists>p\<in>set (products db). barcode p = bc"
  shows "\<exists>old. old \<in> set (products db) \<and> barcode old = bc
           \<and> updateProduct e db bc d =
               (let db' = db\<lparr>products :=
                             place e (map (\<lambda>p. if barcode p = bc then overwrite d p else p)
                                          (products db))\<rparr>
                in if accepts e db' then (Inr (Plain (overwrite d old)), db')
                   else (Inl ConstraintViolation, db))"
proof -
  let ?rs = "map (\<lambda>p. Plain (overwrite d p)) (filter (\<lambda>p. barcode p = bc) (products db))"
  from assms(5) have "?rs \<noteq> []" by (auto simp add: filter_empty_conv)
  from first_row_plan[OF assms(1) this] obtain r where
    r: "first_row (plan e ?rs) = Some r" "r \<in> set ?rs" by blast
  from r(2) obtain old where old: "old \<in> set (products db)" "barcode old = bc"
    "r = Plain (overwrite d old)" by auto
  have "updateProduct e db bc d =
               (let db' = db\<lparr>products :=
                             place e (map (\<lambda>p. if barcode p = bc then overwrite d p else p)
                                          (products db))\<rparr>
                in if accepts e db' then (Inr (Plain (overwrite d old)), db')
                   else (Inl ConstraintViolation, db))"
    using assms(2,3,4) r(1)
    by (simp add: updateProduct_def updateData_Nil Let_def fold_updateData
        old(3) cong: if_cong)
  with old(1,2) show ?thesis by blast
qed

section \<open>The outcomes of \<open>updateProduct\<close>\<close>

text \<open>
  C4 as stated fails: with a non-empty payload and no row of the barcode, a barcode
  with a NUL character ends in the error of the database, not in the not-found error;
  and with a row of the barcode, an update that the schema refuses (a second product
  with the barcode \<open>001\<close> where barcodes are unique) does not return the updated row.
\<close>

theorem update_refused_counterexample:
  "\<not> no_field_supplied (only_price 10)
   \<and> list_all (\<lambda>p. barcode p \<noteq> [CHR 0x00]) (products shop)
   \<and> updateProduct quiet shop [CHR 0x00] (only_price 10) = (Inl InvalidByteSequence, shop)
   \<and> \<not> no_field_supplied (only_barcode ''001'')
   \<and> updateProduct unique_barcodes shop ''002'' (only_barcode ''001'')
       = (Inl ConstraintViolation, shop)"
proof -
  have a: "\<not> no_field_supplied (only_price 10)"
    by (simp add: no_field_supplied_def only_price_def nothing_def)
  have b: "list_all (\<lambda>p. barcode p \<noteq> [CHR 0x00]) (products shop)"
    by (simp add: shop_def milk_def bread_def)
  have "bind_error quiet (updateData (only_price 10)) = None"
    by (simp add: updateData_def only_price_def nothing_def quiet_def)
  moreover have "\<not> text_ok [CHR 0x00]" by (simp add: text_ok_def)
  ultimately have c: "updateProduct quiet shop [CHR 0x00] (only_price 10)
                    = (Inl InvalidByteSequence, shop)"
    using a by (simp add: updateProduct_nul)
  have d: "\<not> no_field_supplied (only_barcode ''001'')"
    by (simp add: no_field_supplied_def only_barcode_def nothing_def)
  have u: "updateData (only_barcode ''001'') = [SetBarcode ''001'']"
    by (simp add: updateData_def only_barcode_def nothing_def)
  have e: "updateProduct unique_barcodes shop ''002'' (only_barcode ''001'')
             = (Inl ConstraintViolation, shop)"
    by (simp add: updateProduct_def u text_ok_def Let_def unique_barcodes_def shop_def
        milk_def bread_def)
  from a b c d e show ?thesis by blast
qed

text \<open>
  C4, amended. \<open>updateProduct\<close> raises the error "no fields supplied" when the payload
  has no recognised field. Otherwise the statement is sent: the database refuses it
  when it cannot bind a supplied value (a string with a NUL character, a value that
  the type of its column does not take) or the barcode (a NUL character); else the
  method raises the not-found error when no row has the barcode; else it returns an
  updated row, a row with the barcode with the supplied fields put in (every row with
  the barcode is updated so), unless the schema refuses the update, when the error of
  the database is raised and nothing is changed.
\<close>

theorem updateProduct_outcomes:
  "(no_field_supplied d \<longrightarrow> updateProduct e db bc d = (Inl NoFieldsSupplied, db))
   \<and> (\<not> no_field_supplied d \<and> bind_error e (updateData d) = Some err \<longrightarrow>
        updateProduct e db bc d = (Inl err, db)
        \<and> (err = InvalidByteSequence \<or> err = InvalidParameter))
   \<and> (\<not> no_field_supplied d \<and> bind_error e (updateData d) = None \<and> \<not> text_ok bc \<longrightarrow>
        updateProduct e db bc d = (Inl InvalidByteSequence, db))
   \<and> (fair e \<and> \<not> no_field_supplied d \<and> bind_error e (updateData d) = None \<and> text_ok bc
        \<and> (\<forall>p\<in>set (products db). barcode p \<noteq> bc) \<longrightarrow>
        updateProduct e db bc d = (Inl (ProductNotFound bc), db))
   \<and> (fair e \<and> \<not> no_field_supplied d \<and> bind_error e (updateData d) = None \<and> text_ok bc
        \<and> (\<exists>p\<in>set (products db). barcode p = bc) \<longrightarrow>
        (\<exists>old db'. old \<in> set (products db) \<and> barcode old = bc
           \<and> mset (products db') =
               image_mset (\<lambda>p. if barcode p = bc then overwrite d p else p) (mset (products db))
           \<and> branches db' = branches db
           \<and> (accepts e db' \<longrightarrow>
                 updateProduct e db bc d = (Inr (Plain (overwrite d old)), db'))
           \<and> (\<not> accepts e db' \<longrightarrow>
                 updateProduct e db bc d = (Inl ConstraintViolation, db))))"
proof (intro conjI impI)
  assume "no_field_supplied d"
  then show "updateProduct e db bc d = (Inl NoFieldsSupplied, db)"
    by (rule updateProduct_empty)
next
  assume "\<not> no_field_supplied d \<and> bind_error e (updateData d) = Some err"
  then show "updateProduct e db bc d = (Inl err, db)"
    by (simp add: updateProduct_refused)
next
  assume "\<not> no_field_supplied d \<and> bind_error e (updateData d) = Some err"
  then show "err = InvalidByteSequence \<or> err = InvalidParameter"
    using bind_error_Some[of e "updateData d" err] by blast
next
  assume "\<not> no_field_supplied d \<and> bind_error e (updateData d) = None \<and> \<not> text_ok bc"
  then show "updateProduct e db bc d = (Inl InvalidByteSequence, db)"
    by (simp add: updateProduct_nul)
next
  assume "fair e \<and> \<not> no_field_supplied d \<and> bind_error e (updateData d) = None \<and> text_ok bc
        \<and> (\<forall>p\<in>set (products db). barcode p \<noteq> bc)"
  then show "updateProduct e db bc d = (Inl (ProductNotFound bc), db)"
    by (simp add: updateProduct_missing)
next
  assume a: "fair e \<and> \<not> no_field_supplied d \<and> bind_error e (updateData d) = None \<and> text_ok bc
        \<and> (\<exists>p\<in>set (products db). barcode p = bc)"
  then have f: "fair e" and n: "\<not> no_field_supplied d"
    and b: "bind_error e (updateData d) = None" and t: "text_ok bc"
    and m: "\<exists>p\<in>set (products db). barcode p = bc" by simp_all
  let ?db' = "db\<lparr>products := place e (map (\<lambda>p. if barcode p = bc then overwrite d p else p)
                                          (products db))\<rparr>"
  from updateProduct_found[OF f n b t m] obtain old where
    old: "old \<in> set (products db)" "barcode old = bc"
      "updateProduct e db bc d =
         (if accepts e ?db' then (Inr (Plain (overwrite d old)), ?db')
          else (Inl ConstraintViolation, db))"
    by (auto simp add: Let_def)
  have "mset (products ?db') =
          image_mset (\<lambda>p. if barcode p = bc then overwrite d p else p) (mset (products db))"
    by (simp add: fair_place[OF f])
  moreover have "branches ?db' = branches db" by simp
  moreover have "accepts e ?db' \<longrightarrow>
      updateProduct e db bc d = (Inr (Plain (overwrite d old)), ?db')"
    by (simp add: old(3))
  moreover have "\<not> accepts e ?db' \<longrightarrow> updateProduct e db bc d = (Inl ConstraintViolation, db)"
    by (simp add: old(3))
  ultimately show "\<exists>old db'. old \<in> set (products db) \<and> barcode old = bc
           \<and> mset (products db') =
               image_mset (\<lambda>p. if barcode p = bc then overwrite d p else p) (mset (products db))
           \<and> branches db' = branches db
           \<and> (accepts e db' \<longrightarrow>
                 updateProduct e db bc d = (Inr (Plain (overwrite d old)), db'))
           \<and> (\<not> accepts e db' \<longrightarrow>
                 updateProduct e db bc d = (Inl ConstraintViolation, db))"
    using old(1,2) by blast
qed

theorem updateProduct_outcomes_witness:
  "fair contrary \<and> bind_error contrary (updateData (only_price 10)) = None
   \<and> updateProduct contrary shop ''002'' nothing = (Inl NoFieldsSupplied, shop)
   \<and> updateProduct contrary shop ''999'' (only_price 10) = (Inl (ProductNotFound ''999''), shop)
   \<and> (\<exists>db'. updateProduct contrary shop ''002'' (only_price 10) =
               (Inr (Plain (bread\<lparr>price := 10\<rparr>)), db')
          \<and> mset (products db') = {#milk, bread\<lparr>price := 10\<rparr>#})"
proof -
  have f: "fair contrary" by (simp add: fair_def contrary_def)
  have e: "no_field_supplied nothing" by (simp add: no_field_supplied_def nothing_def)
  have p: "\<not> no_field_supplied (only_price 10)"
    by (simp add: no_field_supplied_def only_price_def nothing_def)
  have b: "bind_error contrary (updateData (only_price 10)) = None"
    by (simp add: updateData_def only_price_def nothing_def contrary_def)
  have t9: "text_ok ''999''" and t2: "text_ok ''002''"
    by (simp_all add: text_ok_def)
  have m: "\<forall>p\<in>set (products shop). barcode p \<noteq> ''999''"
    by (simp add: shop_def milk_def bread_def)
  have x: "\<exists>p\<in>set (products shop). barcode p = ''002''"
    by (simp add: shop_def milk_def bread_def)
  have o: "overwrite (only_price 10) bread = bread\<lparr>price := 10\<rparr>"
    by (simp add: overwrite_def only_price_def nothing_def bread_def)
  have 1: "updateProduct contrary shop ''002'' nothing = (Inl NoFieldsSupplied, shop)"
    using updateProduct_outcomes[of nothing contrary shop "''002''" InvalidParameter] e by blast
  have 2: "updateProduct contrary shop ''999'' (only_price 10) = (Inl (ProductNotFound ''999''), shop)"
    using updateProduct_outcomes[of "only_price 10" contrary shop "''999''" InvalidParameter]
      f p b t9 m by blast
  from updateProduct_outcomes[of "only_price 10" contrary shop "''002''" InvalidParameter]
    f p b t2 x
  obtain old db' where
    old: "old \<in> set (products shop)" "barcode old = ''002''"
      "mset (products db') =
         image_mset (\<lambda>p. if barcode p = ''002'' then overwrite (only_price 10) p else p)
           (mset (products shop))"
      "accepts contrary db' \<longrightarrow>
         updateProduct contrary shop ''002'' (only_price 10)
           = (Inr (Plain (overwrite (only_price 10) old)), db')"
    by blast
  from old(1,2) have "old = bread" by (auto simp add: shop_def milk_def)
  with old(4) have u: "updateProduct contrary shop ''002'' (only_price 10)
           = (Inr (Plain (bread\<lparr>price := 10\<rparr>)), db')"
    by (simp add: contrary_def o)
  from old(3) have s: "mset (products db') = {#milk, bread\<lparr>price := 10\<rparr>#}"
    by (simp add: shop_def o) (simp add: milk_def bread_def)
  from f b 1 2 u s show ?thesis by blast
qed

section \<open>Misses of read and delete\<close>

text \<open>
  C5 as stated fails: no row has the barcode that is one NUL character, and the
  database refuses to bind it, so \<open>selectByIDProduct\<close> and \<open>deleteProduct\<close> raise.
\<close>

theorem nul_barcode_counterexample:
  "list_all (\<lambda>p. barcode p \<noteq> [CHR 0x00]) (products shop)
   \<and> selectByIDProduct quiet shop [CHR 0x00] = Inl InvalidByteSequence
   \<and> deleteProduct quiet shop [CHR 0x00] = (Inl InvalidByteSequence, shop)"
  by (simp add: selectByIDProduct_def deleteProduct_def text_ok_def shop_def milk_def bread_def)

text \<open>
  C5, amended. For every barcode without a NUL character that no row of \<open>product\<close>
  has, \<open>selectByIDProduct\<close> and \<open>deleteProduct\<close> return \<open>undefined\<close> and raise
  nothing (and the tables are as before), while \<open>updateProduct\<close> raises an error: the
  error for a payload without fields, else the error of the database for a supplied
  value that it cannot bind, else the not-found error.
\<close>

theorem read_and_delete_miss:
  assumes "fair e" and "text_ok bc" and "\<forall>p\<in>set (products db). barcode p \<noteq> bc"
  shows "selectByIDProduct e db bc = Inr None
       \<and> deleteProduct e db bc = (Inr None, db)
       \<and> updateProduct e db bc d =
           (Inl (if no_field_supplied d then NoFieldsSupplied
                 else case bind_error e (updateData d) of
                        Some err \<Rightarrow> err
                      | None \<Rightarrow> ProductNotFound bc), db)"
proof -
  have "selectByIDProduct e db bc = Inr None"
    using assms(2)
    by (simp add: selectByIDProduct_def filter_no_match[OF assms(3)] plan_Nil[OF assms(1)])
  moreover have "deleteProduct e db bc = (Inr None, db)"
    using assms(2)
    by (simp add: deleteProduct_def Let_def filter_no_match[OF assms(3)] plan_Nil[OF assms(1)])
  moreover have "updateProduct e db bc d =
           (Inl (if no_field_supplied d then NoFieldsSupplied
                 else case bind_error e (updateData d) of
                        Some err \<Rightarrow> err
                      | None \<Rightarrow> ProductNotFound bc), db)"
    using assms
    by (cases "bind_error e (updateData d)")
      (simp_all add: updateProduct_empty updateProduct_missing updateProduct_refused)
  ultimately show ?thesis by blast
qed

theorem read_and_delete_miss_witness:
  "fair contrary \<and> text_ok ''999''
   \<and> list_all (\<lambda>p. barcode p \<noteq> ''999'') (products shop)
   \<and> selectByIDProduct contrary shop ''999'' = Inr None
   \<and> deleteProduct contrary shop ''999'' = (Inr None, shop)
   \<and> updateProduct contrary shop ''999'' (only_price 10) = (Inl (ProductNotFound ''999''), shop)"
proof -
  have f: "fair contrary" by (simp add: fair_def contrary_def)
  have t: "text_ok ''999''" by (simp add: text_ok_def)
  have m: "\<forall>p\<in>set (products shop). barcode p \<noteq> ''999''"
    by (simp add: shop_def milk_def bread_def)
  then have l: "list_all (\<lambda>p. barcode p \<noteq> ''999'') (products shop)"
    by (simp only: list_all_iff)
  have p: "\<not> no_field_supplied (only_price 10)"
    by (simp add: no_field_supplied_def only_price_def nothing_def)
  have u: "bind_error contrary (updateData (only_price 10)) = None"
    by (simp add: updateData_def only_price_def nothing_def contrary_def)
  from read_and_delete_miss[OF f t m, of "only_price 10"] f t l p u
  show ?thesis by simp
qed

section \<open>An empty payload changes nothing\<close>

text \<open>
  C9. Every call of \<open>updateProduct\<close> that raises the error "no fields supplied" leaves
  the database as it was: the payload has no recognised field, the check comes before
  the statement, and the outcome does not depend on any choice of the database.
\<close>

theorem no_fields_error_leaves_database:
  assumes "fst (updateProduct e db bc d) = Inl NoFieldsSupplied"
  shows "snd (updateProduct e db bc d) = db
       \<and> no_field_supplied d
       \<and> updateProduct e' db bc d = (Inl NoFieldsSupplied, db)"
proof -
  have n: "no_field_supplied d"
  proof (rule ccontr)
    assume a: "\<not> no_field_supplied d"
    then have "updateData d \<noteq> []" by (simp add: updateData_Nil)
    with assms bind_error_Some[of e "updateData d" NoFieldsSupplied] show False
      by (auto simp add: updateProduct_def Let_def split: if_splits option.splits)
  qed
  then show ?thesis by (simp add: updateProduct_empty)
qed

theorem no_fields_error_leaves_database_witness:
  "fst (updateProduct quiet shop ''002'' nothing) = Inl NoFieldsSupplied
   \<and> snd (updateProduct quiet shop ''002'' nothing) = shop"
proof -
  have f: "fst (updateProduct quiet shop ''002'' nothing) = Inl NoFieldsSupplied"
    by (simp add: updateProduct_def updateData_def nothing_def)
  from no_fields_error_leaves_database[OF f] f show ?thesis by simp
qed

section \<open>What \<open>createProduct\<close> inserts\<close>

lemma createProduct_outcome:
  "\<exists>p. barcode p = c_barcode d
       \<and> description p =
           (case c_description d of None \<Rightarrow> None | Some s \<Rightarrow> if s = [] then None else Some s)
       \<and> tegs p = (if c_tegs d = [] then PgNull
                   else PgText (array_literal (map teg_text (c_tegs d))))
       \<and> image_col p = (case c_imageUrls d of None \<Rightarrow> PgNull
                        | Some urls \<Rightarrow> if urls = [] then PgNull else PgText (array_literal urls))
       \<and> createProduct e ts db d =
           (case bind_error e (create_bindings d) of
              Some err \<Rightarrow> (Inl err, db)
            | None \<Rightarrow>
                if accepts e (db\<lparr>products := place e (products db @ [p])\<rparr>)
                then (Inr (Plain p), db\<lparr>products := place e (products db @ [p])\<rparr>)
                else (Inl ConstraintViolation, db))"
  by (rule exI[of _ "\<lparr>barcode = c_barcode d, name = c_name d, branch_id = c_branch_id d,
             price = c_price d, stock = c_stock d, real_price = c_real_price d,
             category_id = c_category_id d,
             description =
               (case c_description d of None \<Rightarrow> None
                | Some s \<Rightarrow> if s \<noteq> [] then Some s else None),
             tegs = (if length (c_tegs d) \<noteq> 0 then PgText (array_literal (map teg_text (c_tegs d)))
                     else PgNull),
             image_col = (case c_imageUrls d of
                        None \<Rightarrow> PgNull
                      | Some urls \<Rightarrow> if length urls \<noteq> 0 then PgText (array_literal urls) else PgNull),
             updated_at = ts\<rparr>"])
     (simp add: createProduct_def Let_def split: option.splits)

lemma createProduct_Inr:
  assumes "createProduct e ts db d = (Inr r, db')"
  shows "\<exists>p. r = Plain p \<and> products db' = place e (products db @ [p])
           \<and> branches db' = branches db
           \<and> tegs p = (if c_tegs d = [] then PgNull
                       else PgText (array_literal (map teg_text (c_tegs d))))
           \<and> image_col p = (case c_imageUrls d of None \<Rightarrow> PgNull
                        | Some urls \<Rightarrow> if urls = [] then PgNull else PgText (array_literal urls))"
proof -
  from createProduct_outcome[of d e ts db] obtain p where
    p: "tegs p = (if c_tegs d = [] then PgNull
                  else PgText (array_literal (map teg_text (c_tegs d))))"
      "image_col p = (case c_imageUrls d of None \<Rightarrow> PgNull
                        | Some urls \<Rightarrow> if urls = [] then PgNull else PgText (array_literal urls))"
      "createProduct e ts db d =
           (case bind_error e (create_bindings d) of
              Some err \<Rightarrow> (Inl err, db)
            | None \<Rightarrow>
                if accepts e (db\<lparr>products := place e (products db @ [p])\<rparr>)
                then (Inr (Plain p), db\<lparr>products := place e (products db @ [p])\<rparr>)
                else (Inl ConstraintViolation, db))"
    by blast
  from assms p(3) have "r = Plain p \<and> db' = db\<lparr>products := place e (products db @ [p])\<rparr>"
    by (auto split: if_splits option.splits)
  then have "r = Plain p \<and> products db' = place e (products db @ [p])
               \<and> branches db' = branches db" by simp
  with p(1,2) show ?thesis by blast
qed

lemma set_place: "fair e \<Longrightarrow> set (place e ps) = set ps"
  by (metis fair_place set_mset_mset)

lemma select_inserted:
  assumes "fair e" and "fair e'" and "text_ok (barcode p)"
    and "\<forall>x\<in>set ps. barcode x \<noteq> barcode p"
  shows "selectByIDProduct e' (db\<lparr>products := place e (ps @ [p])\<rparr>) (barcode p)
           = Inr (Some (Plain p))"
proof -
  let ?f = "filter (\<lambda>x. barcode x = barcode p) (place e (ps @ [p]))"
  have "mset ?f = filter_mset (\<lambda>x. barcode x = barcode p) (mset (place e (ps @ [p])))"
    by simp
  also have "\<dots> = filter_mset (\<lambda>x. barcode x = barcode p) (mset (ps @ [p]))"
    by (simp only: fair_place[OF assms(1)])
  also have "\<dots> = mset (filter (\<lambda>x. barcode x = barcode p) ps) + {#p#}"
    by simp
  also have "\<dots> = {#p#}" by (simp add: filter_no_match[OF assms(4)])
  finally have "mset ?f = {#p#}" .
  then have "?f = [p]" by (simp only: mset_single_iff)
  then show ?thesis
    using assms(3) by (simp add: selectByIDProduct_def plan_single[OF assms(2)])
qed

section \<open>Empty and absent collections\<close>

text \<open>
  C3 as stated fails for \<open>updateProduct\<close>: an empty \<open>imageUrls\<close> and an empty \<open>tegs\<close>
  are written as the empty array literal \<open>{}\<close>, not as \<open>NULL\<close>, and an update without
  \<open>tegs\<close> leaves the literal that the column held.
\<close>

theorem update_collections_counterexample:
  "fst (updateProduct quiet shop ''002'' (only_imageUrls [])) =
     Inr (Plain (bread\<lparr>image_col := PgText ''{}''\<rparr>))
   \<and> fst (updateProduct quiet shop ''002'' (only_tegs [])) =
     Inr (Plain (bread\<lparr>tegs := PgText ''{}''\<rparr>))
   \<and> fst (updateProduct quiet shop ''001'' (only_price 10)) = Inr (Plain (milk\<lparr>price := 10\<rparr>))
   \<and> tegs (milk\<lparr>price := 10\<rparr>) = PgText (array_literal [''new''])"
proof -
  have b: "filter (\<lambda>p. barcode p = ''002'') (products shop) = [bread]"
    and m: "filter (\<lambda>p. barcode p = ''001'') (products shop) = [milk]"
    by (simp_all add: shop_def milk_def bread_def)
  have q: "plan quiet rs = rs" "accepts quiet db" "admits quiet v" for rs db v
    by (simp_all add: quiet_def)
  have ui: "updateData (only_imageUrls []) = [SetImage ''{}'']"
    and ut: "updateData (only_tegs []) = [SetTegs []]"
    and up: "updateData (only_price 10) = [SetPrice 10]"
    by (simp_all add: updateData_def only_imageUrls_def only_tegs_def only_price_def nothing_def
        array_literal_def)
  have 1: "fst (updateProduct quiet shop ''002'' (only_imageUrls [])) =
     Inr (Plain (bread\<lparr>image_col := PgText ''{}''\<rparr>))"
    by (simp add: updateProduct_def ui text_ok_def Let_def b q)
  have 2: "fst (updateProduct quiet shop ''002'' (only_tegs [])) =
     Inr (Plain (bread\<lparr>tegs := PgText ''{}''\<rparr>))"
    by (simp add: updateProduct_def ut text_ok_def Let_def b q array_literal_def)
  have 3: "fst (updateProduct quiet shop ''001'' (only_price 10)) = Inr (Plain (milk\<lparr>price := 10\<rparr>))"
    by (simp add: updateProduct_def up text_ok_def Let_def m q)
  have 4: "tegs (milk\<lparr>price := 10\<rparr>) = PgText (array_literal [''new''])"
    by (simp add: milk_def)
  from 1 2 3 4 show ?thesis by blast
qed

text \<open>
  C3, amended. \<open>createProduct\<close> stores an empty \<open>tegs\<close>, and an empty or absent
  \<open>imageUrls\<close>, as SQL \<open>NULL\<close> and never as an empty array literal, and a non-empty
  collection as the brace-wrapped literal of its double-quoted elements, separated by
  commas. \<open>updateProduct\<close> leaves the column as it was when the collection is absent,
  and writes the same literal for the \<open>tegs\<close> and the \<open>imageUrls\<close> it is given (\<open>{}\<close>
  for an empty collection).
\<close>

theorem array_columns_written:
  "(createProduct e ts db c = (Inr r, db') \<longrightarrow>
      (\<exists>p. r = Plain p \<and> products db' = place e (products db @ [p])
          \<and> tegs p = (if c_tegs c = [] then PgNull
                      else PgText (array_literal (map teg_text (c_tegs c))))
          \<and> image_col p = (case c_imageUrls c of None \<Rightarrow> PgNull
                       | Some urls \<Rightarrow> if urls = [] then PgNull else PgText (array_literal urls))
          \<and> tegs p \<noteq> PgText ''{}'' \<and> image_col p \<noteq> PgText ''{}''))
   \<and> (fair e \<and> updateProduct e db bc u = (Inr r', db'') \<longrightarrow>
        (\<exists>old p. old \<in> set (products db) \<and> barcode old = bc
           \<and> r' = Plain p \<and> p \<in> set (products db'')
           \<and> tegs p = (case u_tegs u of None \<Rightarrow> tegs old
                       | Some ts \<Rightarrow> PgText (array_literal (map teg_text ts)))
           \<and> image_col p = (case u_imageUrls u of None \<Rightarrow> image_col old
                        | Some urls \<Rightarrow> PgText (array_literal urls))))
   \<and> array_literal [] = ''{}''
   \<and> array_literal (x # xs) =
        ''{'' @ [CHR 0x22] @ x @ [CHR 0x22]
          @ concat (map (\<lambda>y. '','' @ [CHR 0x22] @ y @ [CHR 0x22]) xs) @ ''}''"
proof (intro conjI impI)
  assume "createProduct e ts db c = (Inr r, db')"
  from createProduct_Inr[OF this] obtain p where p: "r = Plain p"
    "products db' = place e (products db @ [p])"
    "tegs p = (if c_tegs c = [] then PgNull
               else PgText (array_literal (map teg_text (c_tegs c))))"
    "image_col p = (case c_imageUrls c of None \<Rightarrow> PgNull
                | Some urls \<Rightarrow> if urls = [] then PgNull else PgText (array_literal urls))"
    by blast
  have "tegs p \<noteq> PgText ''{}''"
    using array_literal_not_empty[of "map teg_text (c_tegs c)"] by (simp add: p(3))
  moreover have "image_col p \<noteq> PgText ''{}''"
    using array_literal_not_empty by (simp add: p(4) split: option.splits)
  ultimately show "\<exists>p. r = Plain p \<and> products db' = place e (products db @ [p])
          \<and> tegs p = (if c_tegs c = [] then PgNull
                      else PgText (array_literal (map teg_text (c_tegs c))))
          \<and> image_col p = (case c_imageUrls c of None \<Rightarrow> PgNull
                       | Some urls \<Rightarrow> if urls = [] then PgNull else PgText (array_literal urls))
          \<and> tegs p \<noteq> PgText ''{}'' \<and> image_col p \<noteq> PgText ''{}''"
    using p by blast
next
  assume h: "fair e \<and> updateProduct e db bc u = (Inr r', db'')"
  then have f: "fair e" and a: "updateProduct e db bc u = (Inr r', db'')" by simp_all
  have n: "\<not> no_field_supplied u"
    using a by (auto simp add: updateProduct_empty)
  have b: "bind_error e (updateData u) = None"
  proof (cases "bind_error e (updateData u)")
    case None
    then show ?thesis .
  next
    case (Some err)
    from updateProduct_refused[OF n this, of db bc] a show ?thesis by simp
  qed
  have t: "text_ok bc"
  proof (rule ccontr)
    assume "\<not> text_ok bc"
    from updateProduct_nul[OF n b this, of db] a show False by simp
  qed
  have m: "\<exists>p\<in>set (products db). barcode p = bc"
  proof (rule ccontr)
    assume "\<not> (\<exists>p\<in>set (products db). barcode p = bc)"
    then have "\<forall>p\<in>set (products db). barcode p \<noteq> bc" by simp
    from updateProduct_missing[OF f n b t this] a show False by simp
  qed
  let ?db' = "db\<lparr>products := place e (map (\<lambda>p. if barcode p = bc then overwrite u p else p)
                                          (products db))\<rparr>"
  from updateProduct_found[OF f n b t m] obtain old where
    old: "old \<in> set (products db)" "barcode old = bc"
      "updateProduct e db bc u =
         (if accepts e ?db' then (Inr (Plain (overwrite u old)), ?db')
          else (Inl ConstraintViolation, db))"
    by (auto simp add: Let_def)
  from a old(3) have r: "r' = Plain (overwrite u old)" and d: "db'' = ?db'"
    by (auto split: if_splits)
  have "overwrite u old \<in> set (map (\<lambda>p. if barcode p = bc then overwrite u p else p) (products db))"
    using old(1,2) by (auto simp add: image_iff intro!: bexI[of _ old])
  then have "overwrite u old \<in> set (products db'')"
    unfolding d by (simp add: set_place[OF f] del: set_map)
  moreover have "tegs (overwrite u old) = (case u_tegs u of None \<Rightarrow> tegs old
                       | Some ts \<Rightarrow> PgText (array_literal (map teg_text ts)))"
    by (simp add: overwrite_def)
  moreover have "image_col (overwrite u old) = (case u_imageUrls u of None \<Rightarrow> image_col old
                        | Some urls \<Rightarrow> PgText (array_literal urls))"
    by (simp add: overwrite_def)
  ultimately show "\<exists>old p. old \<in> set (products db) \<and> barcode old = bc
           \<and> r' = Plain p \<and> p \<in> set (products db'')
           \<and> tegs p = (case u_tegs u of None \<Rightarrow> tegs old
                       | Some ts \<Rightarrow> PgText (array_literal (map teg_text ts)))
           \<and> image_col p = (case u_imageUrls u of None \<Rightarrow> image_col old
                        | Some urls \<Rightarrow> PgText (array_literal urls))"
    using old(1,2) r by blast
next
  show "array_literal [] = ''{}''" by (rule array_literal_Nil)
next
  show "array_literal (x # xs) =
        ''{'' @ [CHR 0x22] @ x @ [CHR 0x22]
          @ concat (map (\<lambda>y. '','' @ [CHR 0x22] @ y @ [CHR 0x22]) xs) @ ''}''"
    by (rule array_literal_Cons)
qed

theorem array_columns_written_witness:
  "fair contrary
   \<and> (\<exists>p d1. createProduct contrary 400 shop butter = (Inr (Plain p), d1)
        \<and> tegs p = PgNull \<and> image_col p = PgNull)
   \<and> (\<exists>p d2. createProduct contrary 400 shop cheese = (Inr (Plain p), d2)
        \<and> tegs p = PgText (''{'' @ [CHR 0x22] @ ''new'' @ [CHR 0x22] @ '',''
                              @ [CHR 0x22] @ ''sale'' @ [CHR 0x22] @ ''}'')
        \<and> image_col p = PgText (''{'' @ [CHR 0x22] @ ''a.png'' @ [CHR 0x22] @ ''}''))
   \<and> (\<exists>p d3. updateProduct contrary shop ''001'' (only_tegs [New, Sale]) = (Inr (Plain p), d3)
        \<and> tegs p = PgText (''{'' @ [CHR 0x22] @ ''new'' @ [CHR 0x22] @ '',''
                              @ [CHR 0x22] @ ''sale'' @ [CHR 0x22] @ ''}'')
        \<and> image_col p = image_col milk)"
proof -
  have f: "fair contrary" by (simp add: fair_def contrary_def)
  have acc: "accepts contrary db" "admits contrary v" for db v by (simp_all add: contrary_def)
  have b1: "bind_error contrary (create_bindings butter) = None"
    by (simp add: create_bindings_def acc text_ok_def butter_def)
  have b2: "bind_error contrary (create_bindings cheese) = None"
    by (simp add: create_bindings_def acc text_ok_def cheese_def array_literal_def)
  obtain r1 d1 where c1: "createProduct contrary 400 shop butter = (Inr r1, d1)"
    by (simp add: createProduct_def Let_def acc b1)
  obtain r2 d2 where c2: "createProduct contrary 400 shop cheese = (Inr r2, d2)"
    by (simp add: createProduct_def Let_def acc b2)
  have n: "\<not> no_field_supplied (only_tegs [New, Sale])"
    by (simp add: no_field_supplied_def only_tegs_def nothing_def)
  have b: "bind_error contrary (updateData (only_tegs [New, Sale])) = None"
    by (simp add: updateData_def only_tegs_def nothing_def acc)
  have t: "text_ok ''001''" by (simp add: text_ok_def)
  have m: "\<exists>p\<in>set (products shop). barcode p = ''001''"
    by (simp add: shop_def milk_def)
  obtain r3 d3 where c3: "updateProduct contrary shop ''001'' (only_tegs [New, Sale]) = (Inr r3, d3)"
    using updateProduct_found[OF f n b t m] by (auto simp add: Let_def acc)
  note t1 = array_columns_written[where e = contrary and ts = 400 and db = shop
      and c = butter and r = r1 and db' = d1 and bc = "''001''" and u = "only_tegs [New, Sale]"
      and r' = r3 and db'' = d3 and x = "''new''" and xs = "[''sale'']"]
  note t2 = array_columns_written[where e = contrary and ts = 400 and db = shop
      and c = cheese and r = r2 and db' = d2 and bc = "''001''" and u = "only_tegs [New, Sale]"
      and r' = r3 and db'' = d3 and x = "''a.png''" and xs = "[]"]
  from t1 c1 obtain p1 where p1: "r1 = Plain p1" "tegs p1 = PgNull" "image_col p1 = PgNull"
    by (auto simp add: butter_def)
  from t1 have l1: "array_literal [''new'', ''sale''] =
      ''{'' @ [CHR 0x22] @ ''new'' @ [CHR 0x22] @ '','' @ [CHR 0x22] @ ''sale'' @ [CHR 0x22] @ ''}''"
    by simp
  from t2 have l2: "array_literal [''a.png''] = ''{'' @ [CHR 0x22] @ ''a.png'' @ [CHR 0x22] @ ''}''"
    by simp
  from t2 c2 obtain p2 where p2: "r2 = Plain p2"
    "tegs p2 = PgText (array_literal [''new'', ''sale''])"
    "image_col p2 = PgText (array_literal [''a.png''])"
    by (auto simp add: cheese_def)
  from t1 f c3 obtain old p3 where p3: "old \<in> set (products shop)" "barcode old = ''001''"
    "r3 = Plain p3"
    "tegs p3 = (case u_tegs (only_tegs [New, Sale]) of None \<Rightarrow> tegs old
                | Some ts \<Rightarrow> PgText (array_literal (map teg_text ts)))"
    "image_col p3 = (case u_imageUrls (only_tegs [New, Sale]) of None \<Rightarrow> image_col old
                | Some urls \<Rightarrow> PgText (array_literal urls))"
    by blast
  from p3(1,2) have o: "old = milk" by (auto simp add: shop_def bread_def)
  from p3(4,5) have p3': "tegs p3 = PgText (array_literal [''new'', ''sale''])"
    "image_col p3 = image_col milk"
    by (simp_all add: o only_tegs_def nothing_def)
  from p2 l1 l2 have p2': "tegs p2 = PgText (''{'' @ [CHR 0x22] @ ''new'' @ [CHR 0x22] @ '',''
                              @ [CHR 0x22] @ ''sale'' @ [CHR 0x22] @ ''}'')"
    "image_col p2 = PgText (''{'' @ [CHR 0x22] @ ''a.png'' @ [CHR 0x22] @ ''}'')"
    by simp_all
  from p3' l1 have p3'': "tegs p3 = PgText (''{'' @ [CHR 0x22] @ ''new'' @ [CHR 0x22] @ '',''
                              @ [CHR 0x22] @ ''sale'' @ [CHR 0x22] @ ''}'')"
    by simp
  from f c1 c2 c3 p1 p2(1) p2' p3(3) p3'(2) p3'' show ?thesis by blast
qed

section \<open>A falsy description\<close>

text \<open>
  C10. \<open>createProduct\<close> binds SQL \<open>NULL\<close> for every falsy description, the empty
  string as well as an absent one: the row it inserts, and returns when the database
  binds the values and accepts the row, has a null description, and reading the
  barcode back gives that row when no earlier row has the barcode.
\<close>

theorem falsy_description_stored_null:
  assumes "c_description d = None \<or> c_description d = Some []"
  shows "\<exists>p. description p = None \<and> barcode p = c_barcode d
           \<and> createProduct e ts db d =
               (case bind_error e (create_bindings d) of
                  Some err \<Rightarrow> (Inl err, db)
                | None \<Rightarrow>
                    if accepts e (db\<lparr>products := place e (products db @ [p])\<rparr>)
                    then (Inr (Plain p), db\<lparr>products := place e (products db @ [p])\<rparr>)
                    else (Inl ConstraintViolation, db))
           \<and> (fair e \<and> fair e' \<and> bind_error e (create_bindings d) = None
                \<and> (\<forall>x\<in>set (products db). barcode x \<noteq> c_barcode d) \<longrightarrow>
                 selectByIDProduct e' (db\<lparr>products := place e (products db @ [p])\<rparr>)
                   (c_barcode d) = Inr (Some (Plain p)))"
proof -
  from createProduct_outcome[of d e ts db] obtain p where
    p: "barcode p = c_barcode d"
      "description p =
         (case c_description d of None \<Rightarrow> None | Some s \<Rightarrow> if s = [] then None else Some s)"
      "createProduct e ts db d =
         (case bind_error e (create_bindings d) of
            Some err \<Rightarrow> (Inl err, db)
          | None \<Rightarrow>
              if accepts e (db\<lparr>products := place e (products db @ [p])\<rparr>)
              then (Inr (Plain p), db\<lparr>products := place e (products db @ [p])\<rparr>)
              else (Inl ConstraintViolation, db))"
    by blast
  have n: "description p = None" using assms p(2) by auto
  have s: "selectByIDProduct e' (db\<lparr>products := place e (products db @ [p])\<rparr>) (c_barcode d)
             = Inr (Some (Plain p))"
    if h: "fair e \<and> fair e' \<and> bind_error e (create_bindings d) = None
            \<and> (\<forall>x\<in>set (products db). barcode x \<noteq> c_barcode d)"
  proof -
    from h have t: "text_ok (barcode p)"
      by (auto simp add: create_bindings_def p(1) split: if_splits)
    from h have m: "\<forall>x\<in>set (products db). barcode x \<noteq> barcode p" by (simp add: p(1))
    from h select_inserted[of e e' p "products db" db, OF _ _ t m]
    show ?thesis by (simp add: p(1))
  qed
  from n p(1) p(3) s show ?thesis by blast
qed

theorem falsy_description_stored_null_witness:
  "c_description butter = Some [] \<and> fair contrary \<and> fair quiet
   \<and> bind_error contrary (create_bindings butter) = None
   \<and> (\<exists>p d'. createProduct contrary 400 shop butter = (Inr (Plain p), d')
         \<and> description p = None
         \<and> selectByIDProduct quiet d' ''004'' = Inr (Some (Plain p)))"
proof -
  have a: "c_description butter = Some []" by (simp add: butter_def)
  then have h: "c_description butter = None \<or> c_description butter = Some []" by simp
  have f: "fair contrary" and f': "fair quiet" by (simp_all add: fair_def contrary_def quiet_def)
  have t: "bind_error contrary (create_bindings butter) = None"
    by (simp add: create_bindings_def text_ok_def butter_def contrary_def)
  have m: "\<forall>x\<in>set (products shop). barcode x \<noteq> c_barcode butter"
    by (simp add: shop_def milk_def bread_def butter_def)
  have b: "c_barcode butter = ''004''" by (simp add: butter_def)
  have acc: "accepts contrary db" for db by (simp add: contrary_def)
  from falsy_description_stored_null[OF h, of contrary 400 shop quiet] obtain p where
    p: "description p = None"
      "createProduct contrary 400 shop butter =
         (Inr (Plain p), shop\<lparr>products := place contrary (products shop @ [p])\<rparr>)"
      "fair contrary \<and> fair quiet \<and> bind_error contrary (create_bindings butter) = None
         \<and> (\<forall>x\<in>set (products shop). barcode x \<noteq> c_barcode butter) \<longrightarrow>
          selectByIDProduct quiet (shop\<lparr>products := place contrary (products shop @ [p])\<rparr>)
            (c_barcode butter) = Inr (Some (Plain p))"
    by (auto simp add: acc t)
  from p(3) f f' t m b
  have "selectByIDProduct quiet (shop\<lparr>products := place contrary (products shop @ [p])\<rparr>) ''004''
            = Inr (Some (Plain p))" by simp
  with a f f' t p(1,2) show ?thesis by blast
qed

end
